theory Spec2Isabelle
  imports Main "HOL-Library.Word"
begin

unbundle bit_operations_syntax

section \<open>The PIT64 timer driver (drivers/clocksource/timer-microchip-pit64.c)\<close>

text \<open>
  The source file holds two variants of the same driver: the legacy one (names
  \<open>pit64_*\<close>, constants \<open>AT91_*\<close>) and the current one (names \<open>mchp_pit64_*\<close>,
  constants \<open>MCHP_*\<close>). Both are embedded, function by function.

  The target is 32-bit ARM (arch/arm/mach-at91): \<open>unsigned long\<close>, \<open>int\<close>, \<open>u32\<close> and
  pointers are 32 bits wide, \<open>u64\<close> and \<open>unsigned long long\<close> are 64 bits, \<open>u16\<close> is 16
  and \<open>u8\<close> is 8 bits. Machine integers are words, so \<open>+\<close> and \<open>-\<close> wrap around.
  Diagnostic printing (\<open>pr_err\<close>) is not modelled.
\<close>

type_synonym addr = "32 word"

subsection \<open>Register map and constants\<close>

named_theorems pit64_consts "values of the driver's preprocessor constants"

text \<open>Legacy variant. \<open>BIT(n)\<close> is \<open>1 << n\<close>, \<open>GENMASK(11, 8)\<close> is \<open>0xF00\<close>.\<close>

definition AT91_PIT64_CR :: "32 word" where [pit64_consts]: "AT91_PIT64_CR = 0x00"
definition AT91_PIT64_CR_START :: "32 word" where [pit64_consts]: "AT91_PIT64_CR_START = 0x1"
definition AT91_PIT64_CR_SWRST :: "32 word" where [pit64_consts]: "AT91_PIT64_CR_SWRST = 0x100"
definition AT91_PIT64_MR :: "32 word" where [pit64_consts]: "AT91_PIT64_MR = 0x04"
definition AT91_PIT64_MR_CONT :: "32 word" where [pit64_consts]: "AT91_PIT64_MR_CONT = 0x1"
definition AT91_PIT64_MR_SMOD :: "32 word" where [pit64_consts]: "AT91_PIT64_MR_SMOD = 0x10"
definition AT91_PIT64_MR_PRES :: "32 word" where [pit64_consts]: "AT91_PIT64_MR_PRES = 0xF00"
definition AT91_PIT64_LSB_PR :: "32 word" where [pit64_consts]: "AT91_PIT64_LSB_PR = 0x08"
definition AT91_PIT64_MSB_PR :: "32 word" where [pit64_consts]: "AT91_PIT64_MSB_PR = 0x0C"
definition AT91_PIT64_IER :: "32 word" where [pit64_consts]: "AT91_PIT64_IER = 0x10"
definition AT91_PIT64_IER_PERIOD :: "32 word" where [pit64_consts]: "AT91_PIT64_IER_PERIOD = 0x1"
definition AT91_PIT64_ISR :: "32 word" where [pit64_consts]: "AT91_PIT64_ISR = 0x1C"
definition AT91_PIT64_ISR_PERIOD :: "32 word" where [pit64_consts]: "AT91_PIT64_ISR_PERIOD = 0x1"
definition AT91_PIT64_TLSB_CVR :: "32 word" where [pit64_consts]: "AT91_PIT64_TLSB_CVR = 0x20"
definition AT91_PIT64_TMSB_CVR :: "32 word" where [pit64_consts]: "AT91_PIT64_TMSB_CVR = 0x24"
definition AT91_PRES_MAX :: "16 word" where [pit64_consts]: "AT91_PRES_MAX = 0x10"
definition AT91_PIT64_CS_RATE :: "64 word" where [pit64_consts]: "AT91_PIT64_CS_RATE = 2500000"
definition AT91_PIT64_CE_RATE :: "64 word" where [pit64_consts]: "AT91_PIT64_CE_RATE = 2500000"
definition AT91_PIT64_LSBMASK :: "64 word" where [pit64_consts]: "AT91_PIT64_LSBMASK = 0xFFFFFFFF"

definition AT91_PIT64_PRESCALER :: "32 word \<Rightarrow> 32 word" where
  "AT91_PIT64_PRESCALER p = AT91_PIT64_MR_PRES AND push_bit 8 p"

text \<open>Current variant.\<close>

definition MCHP_PIT64_CR :: "32 word" where [pit64_consts]: "MCHP_PIT64_CR = 0x00"
definition MCHP_PIT64_CR_START :: "32 word" where [pit64_consts]: "MCHP_PIT64_CR_START = 0x1"
definition MCHP_PIT64_CR_SWRST :: "32 word" where [pit64_consts]: "MCHP_PIT64_CR_SWRST = 0x100"
definition MCHP_PIT64_MR :: "32 word" where [pit64_consts]: "MCHP_PIT64_MR = 0x04"
definition MCHP_PIT64_MR_CONT :: "32 word" where [pit64_consts]: "MCHP_PIT64_MR_CONT = 0x1"
definition MCHP_PIT64_MR_SMOD :: "32 word" where [pit64_consts]: "MCHP_PIT64_MR_SMOD = 0x10"
definition MCHP_PIT64_MR_PRES :: "32 word" where [pit64_consts]: "MCHP_PIT64_MR_PRES = 0xF00"
definition MCHP_PIT64_LSB_PR :: "32 word" where [pit64_consts]: "MCHP_PIT64_LSB_PR = 0x08"
definition MCHP_PIT64_MSB_PR :: "32 word" where [pit64_consts]: "MCHP_PIT64_MSB_PR = 0x0C"
definition MCHP_PIT64_IER :: "32 word" where [pit64_consts]: "MCHP_PIT64_IER = 0x10"
definition MCHP_PIT64_IER_PERIOD :: "32 word" where [pit64_consts]: "MCHP_PIT64_IER_PERIOD = 0x1"
definition MCHP_PIT64_ISR :: "32 word" where [pit64_consts]: "MCHP_PIT64_ISR = 0x1C"
definition MCHP_PIT64_ISR_PERIOD :: "32 word" where [pit64_consts]: "MCHP_PIT64_ISR_PERIOD = 0x1"
definition MCHP_PIT64_TLSBR :: "32 word" where [pit64_consts]: "MCHP_PIT64_TLSBR = 0x20"
definition MCHP_PIT64_TMSBR :: "32 word" where [pit64_consts]: "MCHP_PIT64_TMSBR = 0x24"
definition MCHP_PRES_MAX :: "32 word" where [pit64_consts]: "MCHP_PRES_MAX = 0x10"
definition MCHP_PIT64_CS_RATE :: "64 word" where [pit64_consts]: "MCHP_PIT64_CS_RATE = 2500000"
definition MCHP_PIT64_CE_RATE :: "64 word" where [pit64_consts]: "MCHP_PIT64_CE_RATE = 2500000"
definition MCHP_PIT64_LSBMASK :: "64 word" where [pit64_consts]: "MCHP_PIT64_LSBMASK = 0xFFFFFFFF"

definition MCHP_PIT64_PRESCALER :: "32 word \<Rightarrow> 32 word" where
  "MCHP_PIT64_PRESCALER p = MCHP_PIT64_MR_PRES AND push_bit 8 p"

text \<open>
  Error numbers of include/uapi/asm-generic/errno-base.h (a header that is not part of
  the sources at hand); functions return them negated, as C \<open>int\<close>.
\<close>

definition ENXIO :: int where [pit64_consts]: "ENXIO = 6"
definition ENOMEM :: int where [pit64_consts]: "ENOMEM = 12"
definition EBUSY :: int where [pit64_consts]: "EBUSY = 16"
definition ENODEV :: int where [pit64_consts]: "ENODEV = 19"
definition EINVAL :: int where [pit64_consts]: "EINVAL = 22"

definition PIT64_MODE_CLKSRC :: "32 word" where [pit64_consts]: "PIT64_MODE_CLKSRC = 0"
definition PIT64_MODE_CLKEVT :: "32 word" where [pit64_consts]: "PIT64_MODE_CLKEVT = 1"
definition MCHP_PIT64_MODE_CLKSRC :: "32 word" where [pit64_consts]: "MCHP_PIT64_MODE_CLKSRC = 0"
definition MCHP_PIT64_MODE_CLKEVT :: "32 word" where [pit64_consts]: "MCHP_PIT64_MODE_CLKEVT = 1"

subsection \<open>Data model\<close>

text \<open>
  \<open>struct pit64_common_data\<close>, \<open>pit64_clksrc_data\<close>, \<open>pit64_clkevt_data\<close>; the current
  variant's structs have the same fields and share these records. The pointers
  \<open>clksrc\<close> and \<open>clkevt\<close> are either NULL or the address of the driver's one static
  object of that kind.
\<close>

datatype clksrc_ptr = Clksrc_NULL | Clksrc_static
datatype clkevt_ptr = Clkevt_NULL | Clkevt_static

record pit64_common_data =
  cd_base :: addr
  cd_clk :: addr
  cd_cycles :: "64 word"
  cd_pres :: "8 word"

record pit64_clksrc_data =
  csd_clksrc :: clksrc_ptr
  csd_cd :: pit64_common_data

record pit64_clkevt_data =
  ced_clkevt :: clkevt_ptr
  ced_cd :: pit64_common_data

text \<open>
  Modelled from the spec: \<open>enum clock_event_state\<close> of linux/clockchips.h is not under
  the sources; the spec's EventState is "enumerated: Shutdown, Periodic, OneShot".
\<close>

datatype clock_event_state = Shutdown | Periodic | OneShot

definition clockevent_state_periodic :: "clock_event_state \<Rightarrow> bool" where
  "clockevent_state_periodic st = (st = Periodic)"

datatype irqreturn_t = IRQ_NONE | IRQ_HANDLED

text \<open>
  What the driver does to the outside world is recorded, in order, as a trace of events:
  every register access with its bus address, and every call of a kernel service that
  acquires, releases or registers something.
\<close>

datatype event =
    Readl addr "32 word"
  | Writel addr "32 word"
  | Of_iomap addr addr
  | Iounmap addr
  | Of_clk_get addr "int + addr"
  | Clk_put addr
  | Clk_prepare_enable addr int
  | Clk_disable_unprepare addr
  | Irq_of_parse_and_map addr "32 word"
  | Irq_dispose_mapping "32 word"
  | Request_irq "32 word" addr int
  | Clocksource_register_hz "32 word" int
  | Sched_clock_register "32 word"
  | Clockevents_config_and_register "32 word"
  | Event_handler

text \<open>
  The kernel services the driver calls. Their results are inputs of the model: what a
  register read returns may depend on everything that happened before; \<open>of_clk_get\<close>
  returns an error number (\<open>IS_ERR\<close>, \<open>PTR_ERR\<close>) or a clock handle; \<open>kzalloc\<close> returns
  NULL (0) or the address of zeroed memory, which the allocator takes from what is not
  in use. What the clocksource and clockevents frameworks do with a registered device,
  and what the event handler does when the interrupt handler calls it, is outside the
  driver: the calls are recorded as events.
\<close>

record env =
  readl_relaxed :: "event list \<Rightarrow> addr \<Rightarrow> 32 word"
  of_iomap :: "addr \<Rightarrow> addr"
  of_clk_get :: "addr \<Rightarrow> int + addr"
  irq_of_parse_and_map :: "addr \<Rightarrow> 32 word"
  kzalloc :: addr
  clk_prepare_enable :: "addr \<Rightarrow> int"
  clk_get_rate :: "addr \<Rightarrow> 32 word"
  request_irq :: "32 word \<Rightarrow> addr \<Rightarrow> int"
  clocksource_register_hz :: "32 word \<Rightarrow> int"
  HZ :: "32 word"

text \<open>
  The state: the trace, the driver's global \<open>data\<close> (two pointers, 0 is NULL), the
  heap objects they may point to, and the fields of the static \<open>clock_event_device\<close>
  that change at run time (its state is kept by the clockevents framework).
\<close>

record kernel =
  trace :: "event list"
  data_csd :: addr
  data_ced :: addr
  csd_mem :: "addr \<rightharpoonup> pit64_clksrc_data"
  ced_mem :: "addr \<rightharpoonup> pit64_clkevt_data"
  clkevt_state :: clock_event_state
  clkevt_cpumask :: "nat set"
  clkevt_irq :: "32 word"

datatype fault = Invalid_pointer | Div_by_zero

definition emit :: "event \<Rightarrow> kernel \<Rightarrow> kernel" where
  "emit e s = s\<lparr>trace := trace s @ [e]\<rparr>"

definition deref_csd :: "kernel \<Rightarrow> addr \<Rightarrow> fault + pit64_clksrc_data" where
  "deref_csd s p =
     (if p = 0 then Inl Invalid_pointer
      else case csd_mem s p of None \<Rightarrow> Inl Invalid_pointer | Some d \<Rightarrow> Inr d)"

definition deref_ced :: "kernel \<Rightarrow> addr \<Rightarrow> fault + pit64_clkevt_data" where
  "deref_ced s p =
     (if p = 0 then Inl Invalid_pointer
      else case ced_mem s p of None \<Rightarrow> Inl Invalid_pointer | Some d \<Rightarrow> Inr d)"

subsection \<open>Register protocol, legacy variant\<close>

definition pit64_read :: "env \<Rightarrow> addr \<Rightarrow> 32 word \<Rightarrow> kernel \<Rightarrow> 32 word \<times> kernel" where
  "pit64_read e base offset s =
     (let v = readl_relaxed e (trace s) (base + offset)
      in (v, emit (Readl (base + offset) v) s))"

definition pit64_write :: "addr \<Rightarrow> 32 word \<Rightarrow> 32 word \<Rightarrow> kernel \<Rightarrow> kernel" where
  "pit64_write base offset val s = emit (Writel (base + offset) val) s"

definition pit64_get_period :: "env \<Rightarrow> addr \<Rightarrow> kernel \<Rightarrow> 64 word \<times> kernel" where
  "pit64_get_period e base s =
     (let (lsb, s1) = pit64_read e base AT91_PIT64_TLSB_CVR s;
          (msb, s2) = pit64_read e base AT91_PIT64_TMSB_CVR s1
      in (push_bit 32 (ucast msb) OR ucast lsb, s2))"

definition pit64_set_period :: "addr \<Rightarrow> 64 word \<Rightarrow> kernel \<Rightarrow> kernel" where
  "pit64_set_period base cycles s =
     (let lsb = (ucast (cycles AND AT91_PIT64_LSBMASK) :: 32 word);
          msb = (ucast (drop_bit 32 cycles) :: 32 word);
          s1 = pit64_write base AT91_PIT64_MSB_PR msb s
      in pit64_write base AT91_PIT64_LSB_PR lsb s1)"

text \<open>
  In \<open>data->pres - 1\<close> the \<open>u8\<close> is promoted to \<open>int\<close>; for \<open>pres = 0\<close> the difference
  is \<open>-1\<close>, all ones, as the 32-bit word subtraction gives.
\<close>

definition pit64_reset :: "pit64_common_data \<Rightarrow> 32 word \<Rightarrow> bool \<Rightarrow> kernel \<Rightarrow> kernel" where
  "pit64_reset d mode irq_ena s =
     (let mode' = mode OR AT91_PIT64_PRESCALER (ucast (cd_pres d) - 1);
          s1 = pit64_write (cd_base d) AT91_PIT64_CR AT91_PIT64_CR_SWRST s;
          s2 = pit64_write (cd_base d) AT91_PIT64_MR mode' s1;
          s3 = pit64_set_period (cd_base d) (cd_cycles d) s2;
          s4 = (if irq_ena
                then pit64_write (cd_base d) AT91_PIT64_IER AT91_PIT64_IER_PERIOD s3
                else s3)
      in pit64_write (cd_base d) AT91_PIT64_CR AT91_PIT64_CR_START s4)"

subsection \<open>Register protocol, current variant\<close>

definition mchp_pit64_read :: "env \<Rightarrow> addr \<Rightarrow> 32 word \<Rightarrow> kernel \<Rightarrow> 32 word \<times> kernel" where
  "mchp_pit64_read e base offset s =
     (let v = readl_relaxed e (trace s) (base + offset)
      in (v, emit (Readl (base + offset) v) s))"

definition mchp_pit64_write :: "addr \<Rightarrow> 32 word \<Rightarrow> 32 word \<Rightarrow> kernel \<Rightarrow> kernel" where
  "mchp_pit64_write base offset val s = emit (Writel (base + offset) val) s"

definition mchp_pit64_get_period :: "env \<Rightarrow> addr \<Rightarrow> kernel \<Rightarrow> 64 word \<times> kernel" where
  "mchp_pit64_get_period e base s =
     (let (lsb, s1) = mchp_pit64_read e base MCHP_PIT64_TLSBR s;
          (msb, s2) = mchp_pit64_read e base MCHP_PIT64_TMSBR s1
      in (push_bit 32 (ucast msb) OR ucast lsb, s2))"

definition mchp_pit64_set_period :: "addr \<Rightarrow> 64 word \<Rightarrow> kernel \<Rightarrow> kernel" where
  "mchp_pit64_set_period base cycles s =
     (let lsb = (ucast (cycles AND MCHP_PIT64_LSBMASK) :: 32 word);
          msb = (ucast (drop_bit 32 cycles) :: 32 word);
          s1 = mchp_pit64_write base MCHP_PIT64_MSB_PR msb s
      in mchp_pit64_write base MCHP_PIT64_LSB_PR lsb s1)"

definition mchp_pit64_reset ::
  "pit64_common_data \<Rightarrow> 32 word \<Rightarrow> bool \<Rightarrow> kernel \<Rightarrow> kernel" where
  "mchp_pit64_reset d mode irq_ena s =
     (let mode' = mode OR MCHP_PIT64_PRESCALER (ucast (cd_pres d) - 1);
          s1 = mchp_pit64_write (cd_base d) MCHP_PIT64_CR MCHP_PIT64_CR_SWRST s;
          s2 = mchp_pit64_write (cd_base d) MCHP_PIT64_MR mode' s1;
          s3 = mchp_pit64_set_period (cd_base d) (cd_cycles d) s2;
          s4 = (if irq_ena
                then mchp_pit64_write (cd_base d) MCHP_PIT64_IER MCHP_PIT64_IER_PERIOD s3
                else s3)
      in mchp_pit64_write (cd_base d) MCHP_PIT64_CR MCHP_PIT64_CR_START s4)"

subsection \<open>Prescaler solver\<close>

text \<open>
  The \<open>for\<close> loop of \<open>pit64_pres_compute\<close>, from the current value of \<open>pres\<close>; the
  function enters it with \<open>pres = 2\<close>. \<open>tmp\<close> is a \<open>u32\<close>, compared with the 64-bit
  \<open>max_rate\<close> after zero extension.
\<close>

function pit64_pres_loop :: "32 word \<Rightarrow> 64 word \<Rightarrow> 16 word \<Rightarrow> 16 word" where
  "pit64_pres_loop clk_rate max_rate pres =
     (if pres < AT91_PRES_MAX then
        (let tmp = (clk_rate div ucast pres :: 32 word)
         in if (ucast tmp :: 64 word) \<le> max_rate then pres
            else pit64_pres_loop clk_rate max_rate (pres + 1))
      else pres)"
  by pat_completeness auto
termination
  by (relation "measure (\<lambda>(c, m, p). 16 - unat p)")
     (simp_all add: AT91_PRES_MAX_def word_less_nat_alt unat_word_ariths)

declare pit64_pres_loop.simps [simp del]

definition pit64_pres_compute :: "32 word \<Rightarrow> 64 word \<Rightarrow> 16 word" where
  "pit64_pres_compute clk_rate max_rate =
     (let pres = pit64_pres_loop clk_rate max_rate 2
      in if pres = AT91_PRES_MAX + 1 then AT91_PRES_MAX else pres)"

text \<open>
  The loop of \<open>mchp_pit64_pres_compute\<close>, entered with \<open>pres = 0\<close>; here \<open>pres\<close> is a
  \<open>u32\<close> and the function's \<open>u16\<close> result is its truncation.
\<close>

function mchp_pit64_pres_loop :: "32 word \<Rightarrow> 64 word \<Rightarrow> 32 word \<Rightarrow> 32 word" where
  "mchp_pit64_pres_loop clk_rate max_rate pres =
     (if pres < MCHP_PRES_MAX then
        (let tmp = (clk_rate div (pres + 1) :: 32 word)
         in if (ucast tmp :: 64 word) \<le> max_rate then pres
            else mchp_pit64_pres_loop clk_rate max_rate (pres + 1))
      else pres)"
  by pat_completeness auto
termination
  by (relation "measure (\<lambda>(c, m, p). 16 - unat p)")
     (simp_all add: MCHP_PRES_MAX_def word_less_nat_alt unat_word_ariths)

declare mchp_pit64_pres_loop.simps [simp del]

definition mchp_pit64_pres_compute :: "32 word \<Rightarrow> 64 word \<Rightarrow> 16 word" where
  "mchp_pit64_pres_compute clk_rate max_rate =
     (let pres = mchp_pit64_pres_loop clk_rate max_rate 0
      in ucast (if pres = MCHP_PRES_MAX then MCHP_PRES_MAX - 1 else pres))"


subsection \<open>The clockevent device table\<close>

text \<open>
  \<open>struct clock_event_device\<close> as the driver initialises it: a name, the feature flags,
  a rating and the callbacks. The \<open>cedev\<close> argument of the callbacks is not used by any of
  them and is left out.
\<close>

datatype clock_evt_feat = CLOCK_EVT_FEAT_PERIODIC | CLOCK_EVT_FEAT_ONESHOT

record clock_event_device =
  ce_name :: string
  ce_features :: "clock_evt_feat list"
  ce_rating :: int
  set_state_shutdown :: "kernel \<Rightarrow> fault + int \<times> kernel"
  set_state_periodic :: "kernel \<Rightarrow> fault + int \<times> kernel"
  set_state_oneshot :: "kernel \<Rightarrow> fault + int \<times> kernel"
  set_next_event :: "32 word \<Rightarrow> kernel \<Rightarrow> fault + int \<times> kernel"
  suspend :: "env \<Rightarrow> kernel \<Rightarrow> fault + kernel"
  resume :: "env \<Rightarrow> kernel \<Rightarrow> fault + kernel"

subsection \<open>Clocksource and clockevent callbacks, legacy variant\<close>

definition pit64_read_clk :: "env \<Rightarrow> kernel \<Rightarrow> fault + 64 word \<times> kernel" where
  "pit64_read_clk e s =
     (case deref_csd s (data_csd s) of
        Inl f \<Rightarrow> Inl f
      | Inr csd \<Rightarrow> Inr (pit64_get_period e (cd_base (csd_cd csd)) s))"

definition sched_read_clk :: "env \<Rightarrow> kernel \<Rightarrow> fault + 64 word \<times> kernel" where
  "sched_read_clk e s =
     (case deref_csd s (data_csd s) of
        Inl f \<Rightarrow> Inl f
      | Inr csd \<Rightarrow> Inr (pit64_get_period e (cd_base (csd_cd csd)) s))"

definition pit64_clkevt_shutdown :: "kernel \<Rightarrow> fault + int \<times> kernel" where
  "pit64_clkevt_shutdown s =
     (case deref_ced s (data_ced s) of
        Inl f \<Rightarrow> Inl f
      | Inr ced \<Rightarrow>
          Inr (0, pit64_write (cd_base (ced_cd ced)) AT91_PIT64_CR AT91_PIT64_CR_SWRST s))"

definition pit64_clkevt_set_periodic :: "kernel \<Rightarrow> fault + int \<times> kernel" where
  "pit64_clkevt_set_periodic s =
     (case deref_ced s (data_ced s) of
        Inl f \<Rightarrow> Inl f
      | Inr ced \<Rightarrow> Inr (0, pit64_reset (ced_cd ced) AT91_PIT64_MR_CONT True s))"

definition pit64_clkevt_set_oneshot :: "kernel \<Rightarrow> fault + int \<times> kernel" where
  "pit64_clkevt_set_oneshot s =
     (case deref_ced s (data_ced s) of
        Inl f \<Rightarrow> Inl f
      | Inr ced \<Rightarrow> Inr (0, pit64_reset (ced_cd ced) AT91_PIT64_MR_SMOD True s))"

text \<open>\<open>evt\<close> is an \<open>unsigned long\<close>, zero-extended to the \<open>u64\<close> parameter of the period write.\<close>

definition pit64_clkevt_set_next_event :: "32 word \<Rightarrow> kernel \<Rightarrow> fault + int \<times> kernel" where
  "pit64_clkevt_set_next_event evt s =
     (case deref_ced s (data_ced s) of
        Inl f \<Rightarrow> Inl f
      | Inr ced \<Rightarrow>
          (let s1 = pit64_set_period (cd_base (ced_cd ced)) (ucast evt) s
           in Inr (0, pit64_write (cd_base (ced_cd ced)) AT91_PIT64_CR AT91_PIT64_CR_START s1)))"

text \<open>
  Suspend and resume have the one callback type \<open>void (*)(struct clock_event_device *)\<close>;
  in the model both take the kernel services, which only resume consults.
\<close>

definition pit64_clkevt_suspend :: "env \<Rightarrow> kernel \<Rightarrow> fault + kernel" where
  "pit64_clkevt_suspend e s =
     (case deref_ced s (data_ced s) of
        Inl f \<Rightarrow> Inl f
      | Inr ced \<Rightarrow>
          (let s1 = pit64_write (cd_base (ced_cd ced)) AT91_PIT64_CR AT91_PIT64_CR_SWRST s
           in Inr (emit (Clk_disable_unprepare (cd_clk (ced_cd ced))) s1)))"

definition pit64_clkevt_resume :: "env \<Rightarrow> kernel \<Rightarrow> fault + kernel" where
  "pit64_clkevt_resume e s =
     (case deref_ced s (data_ced s) of
        Inl f \<Rightarrow> Inl f
      | Inr ced \<Rightarrow>
          (let ret = clk_prepare_enable e (cd_clk (ced_cd ced));
               s1 = emit (Clk_prepare_enable (cd_clk (ced_cd ced)) ret) s
           in if ret \<noteq> 0 then Inr s1
              else case ced_clkevt ced of
                     Clkevt_NULL \<Rightarrow> Inl Invalid_pointer
                   | Clkevt_static \<Rightarrow>
                       (let mode = (if clockevent_state_periodic (clkevt_state s1)
                                    then AT91_PIT64_MR_CONT else AT91_PIT64_MR_SMOD)
                        in Inr (pit64_reset (ced_cd ced) mode True s1))))"

definition clkevt :: clock_event_device where
  "clkevt =
     \<lparr> ce_name = ''pit64'',
       ce_features = [CLOCK_EVT_FEAT_ONESHOT, CLOCK_EVT_FEAT_PERIODIC],
       ce_rating = 250,
       set_state_shutdown = pit64_clkevt_shutdown,
       set_state_periodic = pit64_clkevt_set_periodic,
       set_state_oneshot = pit64_clkevt_set_oneshot,
       set_next_event = pit64_clkevt_set_next_event,
       suspend = pit64_clkevt_resume,
       resume = pit64_clkevt_suspend \<rparr>"

definition pit64_interrupt :: "env \<Rightarrow> int \<Rightarrow> addr \<Rightarrow> kernel \<Rightarrow> fault + irqreturn_t \<times> kernel" where
  "pit64_interrupt e irq dev_id s =
     (let irq_data = dev_id
      in if data_ced s \<noteq> irq_data then Inr (IRQ_NONE, s)
         else case deref_ced s irq_data of
                Inl f \<Rightarrow> Inl f
              | Inr ced \<Rightarrow>
                  (let (v, s1) = pit64_read e (cd_base (ced_cd ced)) AT91_PIT64_ISR s
                   in if v AND AT91_PIT64_ISR_PERIOD \<noteq> 0
                      then (case ced_clkevt ced of
                              Clkevt_NULL \<Rightarrow> Inl Invalid_pointer
                            | Clkevt_static \<Rightarrow> Inr (IRQ_HANDLED, emit Event_handler s1))
                      else Inr (IRQ_NONE, s1)))"

subsection \<open>Clocksource and clockevent callbacks, current variant\<close>

definition mchp_pit64_read_clk :: "env \<Rightarrow> kernel \<Rightarrow> fault + 64 word \<times> kernel" where
  "mchp_pit64_read_clk e s =
     (case deref_csd s (data_csd s) of
        Inl f \<Rightarrow> Inl f
      | Inr csd \<Rightarrow> Inr (mchp_pit64_get_period e (cd_base (csd_cd csd)) s))"

definition mchp_sched_read_clk :: "env \<Rightarrow> kernel \<Rightarrow> fault + 64 word \<times> kernel" where
  "mchp_sched_read_clk e s =
     (case deref_csd s (data_csd s) of
        Inl f \<Rightarrow> Inl f
      | Inr csd \<Rightarrow> Inr (mchp_pit64_get_period e (cd_base (csd_cd csd)) s))"

definition mchp_pit64_clkevt_shutdown :: "kernel \<Rightarrow> fault + int \<times> kernel" where
  "mchp_pit64_clkevt_shutdown s =
     (case deref_ced s (data_ced s) of
        Inl f \<Rightarrow> Inl f
      | Inr ced \<Rightarrow>
          Inr (0, mchp_pit64_write (cd_base (ced_cd ced)) MCHP_PIT64_CR MCHP_PIT64_CR_SWRST s))"

definition mchp_pit64_clkevt_set_periodic :: "kernel \<Rightarrow> fault + int \<times> kernel" where
  "mchp_pit64_clkevt_set_periodic s =
     (case deref_ced s (data_ced s) of
        Inl f \<Rightarrow> Inl f
      | Inr ced \<Rightarrow> Inr (0, mchp_pit64_reset (ced_cd ced) MCHP_PIT64_MR_CONT True s))"

definition mchp_pit64_clkevt_set_oneshot :: "kernel \<Rightarrow> fault + int \<times> kernel" where
  "mchp_pit64_clkevt_set_oneshot s =
     (case deref_ced s (data_ced s) of
        Inl f \<Rightarrow> Inl f
      | Inr ced \<Rightarrow> Inr (0, mchp_pit64_reset (ced_cd ced) MCHP_PIT64_MR_SMOD True s))"

text \<open>\<open>evt\<close> is an \<open>unsigned long\<close>, zero-extended to the \<open>u64\<close> parameter of the period write.\<close>

definition mchp_pit64_clkevt_set_next_event :: "32 word \<Rightarrow> kernel \<Rightarrow> fault + int \<times> kernel" where
  "mchp_pit64_clkevt_set_next_event evt s =
     (case deref_ced s (data_ced s) of
        Inl f \<Rightarrow> Inl f
      | Inr ced \<Rightarrow>
          (let s1 = mchp_pit64_set_period (cd_base (ced_cd ced)) (ucast evt) s
           in Inr (0, mchp_pit64_write (cd_base (ced_cd ced)) MCHP_PIT64_CR MCHP_PIT64_CR_START s1)))"

text \<open>
  Suspend and resume have the one callback type \<open>void (*)(struct clock_event_device *)\<close>;
  in the model both take the kernel services, which only resume consults.
\<close>

definition mchp_pit64_clkevt_suspend :: "env \<Rightarrow> kernel \<Rightarrow> fault + kernel" where
  "mchp_pit64_clkevt_suspend e s =
     (case deref_ced s (data_ced s) of
        Inl f \<Rightarrow> Inl f
      | Inr ced \<Rightarrow>
          (let s1 = mchp_pit64_write (cd_base (ced_cd ced)) MCHP_PIT64_CR MCHP_PIT64_CR_SWRST s
           in Inr (emit (Clk_disable_unprepare (cd_clk (ced_cd ced))) s1)))"

definition mchp_pit64_clkevt_resume :: "env \<Rightarrow> kernel \<Rightarrow> fault + kernel" where
  "mchp_pit64_clkevt_resume e s =
     (case deref_ced s (data_ced s) of
        Inl f \<Rightarrow> Inl f
      | Inr ced \<Rightarrow>
          (let ret = clk_prepare_enable e (cd_clk (ced_cd ced));
               s1 = emit (Clk_prepare_enable (cd_clk (ced_cd ced)) ret) s
           in if ret \<noteq> 0 then Inr s1
              else case ced_clkevt ced of
                     Clkevt_NULL \<Rightarrow> Inl Invalid_pointer
                   | Clkevt_static \<Rightarrow>
                       (let mode = (if clockevent_state_periodic (clkevt_state s1)
                                    then MCHP_PIT64_MR_CONT else MCHP_PIT64_MR_SMOD)
                        in Inr (mchp_pit64_reset (ced_cd ced) mode True s1))))"

definition mchp_clkevt :: clock_event_device where
  "mchp_clkevt =
     \<lparr> ce_name = ''pit64'',
       ce_features = [CLOCK_EVT_FEAT_ONESHOT, CLOCK_EVT_FEAT_PERIODIC],
       ce_rating = 250,
       set_state_shutdown = mchp_pit64_clkevt_shutdown,
       set_state_periodic = mchp_pit64_clkevt_set_periodic,
       set_state_oneshot = mchp_pit64_clkevt_set_oneshot,
       set_next_event = mchp_pit64_clkevt_set_next_event,
       suspend = mchp_pit64_clkevt_suspend,
       resume = mchp_pit64_clkevt_resume \<rparr>"

definition mchp_pit64_interrupt :: "env \<Rightarrow> int \<Rightarrow> addr \<Rightarrow> kernel \<Rightarrow> fault + irqreturn_t \<times> kernel" where
  "mchp_pit64_interrupt e irq dev_id s =
     (let irq_data = dev_id
      in if data_ced s \<noteq> irq_data then Inr (IRQ_NONE, s)
         else case deref_ced s irq_data of
                Inl f \<Rightarrow> Inl f
              | Inr ced \<Rightarrow>
                  (let (v, s1) = mchp_pit64_read e (cd_base (ced_cd ced)) MCHP_PIT64_ISR s
                   in if v AND MCHP_PIT64_ISR_PERIOD \<noteq> 0
                      then (case ced_clkevt ced of
                              Clkevt_NULL \<Rightarrow> Inl Invalid_pointer
                            | Clkevt_static \<Rightarrow> Inr (IRQ_HANDLED, emit Event_handler s1))
                      else Inr (IRQ_NONE, s1)))"


subsection \<open>Instantiation, legacy variant\<close>

text \<open>The labels \<open>free\<close> of the two constructors: \<open>kfree\<close>, then the registry slot is cleared.\<close>

definition pit64_clksrc_free :: "addr \<Rightarrow> kernel \<Rightarrow> kernel" where
  "pit64_clksrc_free csd s = s\<lparr>csd_mem := (csd_mem s)(csd := None), data_csd := 0\<rparr>"

definition pit64_clkevt_free :: "addr \<Rightarrow> kernel \<Rightarrow> kernel" where
  "pit64_clkevt_free ced s = s\<lparr>ced_mem := (ced_mem s)(ced := None), data_ced := 0\<rparr>"

text \<open>
  \<open>csd->cd.pres\<close> is a \<open>u8\<close>: the solver's \<open>u16\<close> result is truncated. The division
  \<open>clk_rate / csd->cd.pres\<close> faults when the divisor is 0.
\<close>

definition pit64_dt_init_clksrc :: "env \<Rightarrow> addr \<Rightarrow> addr \<Rightarrow> kernel \<Rightarrow> fault + int \<times> kernel" where
  "pit64_dt_init_clksrc e base clk s =
     (let csd = kzalloc e
      in if csd = 0 then Inr (- ENOMEM, s)
         else
           let cd0 = \<lparr>cd_base = base, cd_clk = clk, cd_cycles = 0, cd_pres = 0\<rparr>;
               s1 = s\<lparr>csd_mem := (csd_mem s)(csd \<mapsto> \<lparr>csd_clksrc = Clksrc_NULL, csd_cd = cd0\<rparr>)\<rparr>;
               ret = clk_prepare_enable e clk;
               s2 = emit (Clk_prepare_enable clk ret) s1
           in if ret \<noteq> 0 then Inr (ret, pit64_clksrc_free csd s2)
              else
                let clk_rate = clk_get_rate e clk;
                    pres = (ucast (pit64_pres_compute clk_rate AT91_PIT64_CS_RATE) :: 8 word)
                in if pres = 0 then Inl Div_by_zero
                   else
                     let clk_rate' = clk_rate div ucast pres;
                         cd1 = cd0\<lparr>cd_pres := pres, cd_cycles := - 1\<rparr>;
                         s3 = s2\<lparr>csd_mem := (csd_mem s2)
                                  (csd \<mapsto> \<lparr>csd_clksrc = Clksrc_NULL, csd_cd = cd1\<rparr>)\<rparr>;
                         s4 = pit64_reset cd1 AT91_PIT64_MR_CONT False s3;
                         s5 = s4\<lparr>data_csd := csd\<rparr>;
                         s6 = s5\<lparr>csd_mem := (csd_mem s5)
                                  (csd \<mapsto> \<lparr>csd_clksrc = Clksrc_static, csd_cd = cd1\<rparr>)\<rparr>;
                         ret' = clocksource_register_hz e clk_rate';
                         s7 = emit (Clocksource_register_hz clk_rate' ret') s6
                     in if ret' \<noteq> 0
                        then Inr (ret', pit64_clksrc_free csd (emit (Clk_disable_unprepare clk) s7))
                        else Inr (0, emit (Sched_clock_register clk_rate') s7))"

text \<open>
  \<open>DIV_ROUND_CLOSEST(clk_rate, HZ)\<close> on an \<open>unsigned long\<close> is
  \<open>(clk_rate + HZ / 2) / HZ\<close>; \<open>HZ\<close> is a configuration constant of the kernel.
\<close>

definition pit64_dt_init_clkevt ::
  "env \<Rightarrow> addr \<Rightarrow> addr \<Rightarrow> 32 word \<Rightarrow> kernel \<Rightarrow> fault + int \<times> kernel" where
  "pit64_dt_init_clkevt e base clk irq s =
     (let ced = kzalloc e
      in if ced = 0 then Inr (- ENOMEM, s)
         else
           let cd0 = \<lparr>cd_base = base, cd_clk = clk, cd_cycles = 0, cd_pres = 0\<rparr>;
               s1 = s\<lparr>ced_mem := (ced_mem s)(ced \<mapsto> \<lparr>ced_clkevt = Clkevt_NULL, ced_cd = cd0\<rparr>)\<rparr>;
               ret = clk_prepare_enable e clk;
               s2 = emit (Clk_prepare_enable clk ret) s1
           in if ret \<noteq> 0 then Inr (ret, pit64_clkevt_free ced s2)
              else
                let clk_rate = clk_get_rate e clk;
                    pres = (ucast (pit64_pres_compute clk_rate AT91_PIT64_CE_RATE) :: 8 word)
                in if pres = 0 \<or> HZ e = 0 then Inl Div_by_zero
                   else
                     let clk_rate' = clk_rate div ucast pres;
                         cd1 = cd0\<lparr>cd_pres := pres,
                                   cd_cycles := ucast ((clk_rate' + HZ e div 2) div HZ e)\<rparr>;
                         s3 = s2\<lparr>ced_mem := (ced_mem s2)
                                  (ced \<mapsto> \<lparr>ced_clkevt = Clkevt_NULL, ced_cd = cd1\<rparr>)\<rparr>;
                         ret' = request_irq e irq ced;
                         s4 = emit (Request_irq irq ced ret') s3
                     in if ret' \<noteq> 0
                        then Inr (ret', pit64_clkevt_free ced (emit (Clk_disable_unprepare clk) s4))
                        else
                          let s5 = s4\<lparr>data_ced := ced\<rparr>;
                              s6 = s5\<lparr>ced_mem := (ced_mem s5)
                                       (ced \<mapsto> \<lparr>ced_clkevt = Clkevt_static, ced_cd = cd1\<rparr>),
                                     clkevt_cpumask := {0}, clkevt_irq := irq\<rparr>
                          in Inr (0, emit (Clockevents_config_and_register clk_rate') s6))"

text \<open>The exit labels of \<open>pit64_dt_init\<close>, each falling through to the next.\<close>

definition pit64_dt_init_unmap :: "addr \<Rightarrow> int \<Rightarrow> kernel \<Rightarrow> int \<times> kernel" where
  "pit64_dt_init_unmap base ret s = (ret, emit (Iounmap base) s)"

definition pit64_dt_init_clock_put :: "addr \<Rightarrow> addr \<Rightarrow> int \<Rightarrow> kernel \<Rightarrow> int \<times> kernel" where
  "pit64_dt_init_clock_put clk base ret s = pit64_dt_init_unmap base ret (emit (Clk_put clk) s)"

definition pit64_dt_init_irq_unmap ::
  "32 word \<Rightarrow> addr \<Rightarrow> addr \<Rightarrow> int \<Rightarrow> kernel \<Rightarrow> int \<times> kernel" where
  "pit64_dt_init_irq_unmap irq clk base ret s =
     pit64_dt_init_clock_put clk base ret (emit (Irq_dispose_mapping irq) s)"

text \<open>
  \<open>mode\<close> is a C enum, an integer that the \<open>switch\<close> compares with the two enumerators.
  \<open>ret\<close> is initialised to \<open>-EINVAL\<close> and is still that value wherever the code jumps to
  \<open>clock_put\<close> without assigning it.
\<close>

definition pit64_dt_init :: "env \<Rightarrow> addr \<Rightarrow> 32 word \<Rightarrow> kernel \<Rightarrow> fault + int \<times> kernel" where
  "pit64_dt_init e node mode s =
     (let base = of_iomap e node;
          s1 = emit (Of_iomap node base) s
      in if base = 0 then Inr (- ENXIO, s1)
         else
           let c = of_clk_get e node;
               s2 = emit (Of_clk_get node c) s1
           in case c of
                Inl err \<Rightarrow> Inr (pit64_dt_init_unmap base err s2)
              | Inr clk \<Rightarrow>
                  if mode = PIT64_MODE_CLKSRC then
                    if data_csd s2 \<noteq> 0
                    then Inr (pit64_dt_init_clock_put clk base (- EINVAL) s2)
                    else (case pit64_dt_init_clksrc e base clk s2 of
                            Inl f \<Rightarrow> Inl f
                          | Inr (ret, s3) \<Rightarrow>
                              if ret \<noteq> 0 then Inr (pit64_dt_init_clock_put clk base ret s3)
                              else Inr (0, s3))
                  else if mode = PIT64_MODE_CLKEVT then
                    if data_ced s2 \<noteq> 0
                    then Inr (pit64_dt_init_clock_put clk base (- EINVAL) s2)
                    else
                      let irq = irq_of_parse_and_map e node;
                          s3 = emit (Irq_of_parse_and_map node irq) s2
                      in if irq = 0
                         then Inr (pit64_dt_init_clock_put clk base (- EINVAL) s3)
                         else (case pit64_dt_init_clkevt e base clk irq s3 of
                                 Inl f \<Rightarrow> Inl f
                               | Inr (ret, s4) \<Rightarrow>
                                   if ret \<noteq> 0
                                   then Inr (pit64_dt_init_irq_unmap irq clk base ret s4)
                                   else Inr (0, s4))
                  else Inr (pit64_dt_init_clock_put clk base (- EINVAL) s2))"

definition pit64_clksrc_dt_init :: "env \<Rightarrow> addr \<Rightarrow> kernel \<Rightarrow> fault + int \<times> kernel" where
  "pit64_clksrc_dt_init e node s = pit64_dt_init e node PIT64_MODE_CLKSRC s"

definition pit64_clkevt_dt_init :: "env \<Rightarrow> addr \<Rightarrow> kernel \<Rightarrow> fault + int \<times> kernel" where
  "pit64_clkevt_dt_init e node s = pit64_dt_init e node PIT64_MODE_CLKEVT s"

subsection \<open>Instantiation, current variant\<close>

text \<open>The labels \<open>free\<close> of the two constructors: \<open>kfree\<close>, then the registry slot is cleared.\<close>

definition mchp_pit64_clksrc_free :: "addr \<Rightarrow> kernel \<Rightarrow> kernel" where
  "mchp_pit64_clksrc_free csd s = s\<lparr>csd_mem := (csd_mem s)(csd := None), data_csd := 0\<rparr>"

definition mchp_pit64_clkevt_free :: "addr \<Rightarrow> kernel \<Rightarrow> kernel" where
  "mchp_pit64_clkevt_free ced s = s\<lparr>ced_mem := (ced_mem s)(ced := None), data_ced := 0\<rparr>"

text \<open>
  \<open>csd->cd.pres\<close> is a \<open>u8\<close>: the solver's \<open>u16\<close> result is truncated. The division
  \<open>clk_rate / csd->cd.pres\<close> faults when the divisor is 0.
\<close>

definition mchp_pit64_dt_init_clksrc :: "env \<Rightarrow> addr \<Rightarrow> addr \<Rightarrow> kernel \<Rightarrow> fault + int \<times> kernel" where
  "mchp_pit64_dt_init_clksrc e base clk s =
     (let csd = kzalloc e
      in if csd = 0 then Inr (- ENOMEM, s)
         else
           let cd0 = \<lparr>cd_base = base, cd_clk = clk, cd_cycles = 0, cd_pres = 0\<rparr>;
               s1 = s\<lparr>csd_mem := (csd_mem s)(csd \<mapsto> \<lparr>csd_clksrc = Clksrc_NULL, csd_cd = cd0\<rparr>)\<rparr>;
               ret = clk_prepare_enable e clk;
               s2 = emit (Clk_prepare_enable clk ret) s1
           in if ret \<noteq> 0 then Inr (ret, mchp_pit64_clksrc_free csd s2)
              else
                let clk_rate = clk_get_rate e clk;
                    pres = (ucast (mchp_pit64_pres_compute clk_rate MCHP_PIT64_CS_RATE) :: 8 word)
                in if pres = 0 then Inl Div_by_zero
                   else
                     let clk_rate' = clk_rate div ucast pres;
                         cd1 = cd0\<lparr>cd_pres := pres, cd_cycles := - 1\<rparr>;
                         s3 = s2\<lparr>csd_mem := (csd_mem s2)
                                  (csd \<mapsto> \<lparr>csd_clksrc = Clksrc_NULL, csd_cd = cd1\<rparr>)\<rparr>;
                         s4 = mchp_pit64_reset cd1 MCHP_PIT64_MR_CONT False s3;
                         s5 = s4\<lparr>data_csd := csd\<rparr>;
                         s6 = s5\<lparr>csd_mem := (csd_mem s5)
                                  (csd \<mapsto> \<lparr>csd_clksrc = Clksrc_static, csd_cd = cd1\<rparr>)\<rparr>;
                         ret' = clocksource_register_hz e clk_rate';
                         s7 = emit (Clocksource_register_hz clk_rate' ret') s6
                     in if ret' \<noteq> 0
                        then Inr (ret', mchp_pit64_clksrc_free csd (emit (Clk_disable_unprepare clk) s7))
                        else Inr (0, emit (Sched_clock_register clk_rate') s7))"

text \<open>
  \<open>DIV_ROUND_CLOSEST(clk_rate, HZ)\<close> on an \<open>unsigned long\<close> is
  \<open>(clk_rate + HZ / 2) / HZ\<close>; \<open>HZ\<close> is a configuration constant of the kernel.
\<close>

definition mchp_pit64_dt_init_clkevt ::
  "env \<Rightarrow> addr \<Rightarrow> addr \<Rightarrow> 32 word \<Rightarrow> kernel \<Rightarrow> fault + int \<times> kernel" where
  "mchp_pit64_dt_init_clkevt e base clk irq s =
     (let ced = kzalloc e
      in if ced = 0 then Inr (- ENOMEM, s)
         else
           let cd0 = \<lparr>cd_base = base, cd_clk = clk, cd_cycles = 0, cd_pres = 0\<rparr>;
               s1 = s\<lparr>ced_mem := (ced_mem s)(ced \<mapsto> \<lparr>ced_clkevt = Clkevt_NULL, ced_cd = cd0\<rparr>)\<rparr>;
               ret = clk_prepare_enable e clk;
               s2 = emit (Clk_prepare_enable clk ret) s1
           in if ret \<noteq> 0 then Inr (ret, mchp_pit64_clkevt_free ced s2)
              else
                let clk_rate = clk_get_rate e clk;
                    pres = (ucast (mchp_pit64_pres_compute clk_rate MCHP_PIT64_CE_RATE) :: 8 word)
                in if pres = 0 \<or> HZ e = 0 then Inl Div_by_zero
                   else
                     let clk_rate' = clk_rate div ucast pres;
                         cd1 = cd0\<lparr>cd_pres := pres,
                                   cd_cycles := ucast ((clk_rate' + HZ e div 2) div HZ e)\<rparr>;
                         s3 = s2\<lparr>ced_mem := (ced_mem s2)
                                  (ced \<mapsto> \<lparr>ced_clkevt = Clkevt_NULL, ced_cd = cd1\<rparr>)\<rparr>;
                         ret' = request_irq e irq ced;
                         s4 = emit (Request_irq irq ced ret') s3
                     in if ret' \<noteq> 0
                        then Inr (ret', mchp_pit64_clkevt_free ced (emit (Clk_disable_unprepare clk) s4))
                        else
                          let s5 = s4\<lparr>data_ced := ced\<rparr>;
                              s6 = s5\<lparr>ced_mem := (ced_mem s5)
                                       (ced \<mapsto> \<lparr>ced_clkevt = Clkevt_static, ced_cd = cd1\<rparr>),
                                     clkevt_cpumask := {0}, clkevt_irq := irq\<rparr>
                          in Inr (0, emit (Clockevents_config_and_register clk_rate') s6))"

text \<open>The exit labels of \<open>mchp_pit64_dt_init\<close>, each falling through to the next.\<close>

definition mchp_pit64_dt_init_unmap :: "addr \<Rightarrow> int \<Rightarrow> kernel \<Rightarrow> int \<times> kernel" where
  "mchp_pit64_dt_init_unmap base ret s = (ret, emit (Iounmap base) s)"

definition mchp_pit64_dt_init_clock_put :: "addr \<Rightarrow> addr \<Rightarrow> int \<Rightarrow> kernel \<Rightarrow> int \<times> kernel" where
  "mchp_pit64_dt_init_clock_put clk base ret s = mchp_pit64_dt_init_unmap base ret (emit (Clk_put clk) s)"

definition mchp_pit64_dt_init_irq_unmap ::
  "32 word \<Rightarrow> addr \<Rightarrow> addr \<Rightarrow> int \<Rightarrow> kernel \<Rightarrow> int \<times> kernel" where
  "mchp_pit64_dt_init_irq_unmap irq clk base ret s =
     mchp_pit64_dt_init_clock_put clk base ret (emit (Irq_dispose_mapping irq) s)"

text \<open>
  \<open>mode\<close> is a C enum, an integer that the \<open>switch\<close> compares with the two enumerators.
  Every jump to \<open>clock_put\<close> assigns \<open>ret\<close> first.
\<close>

definition mchp_pit64_dt_init :: "env \<Rightarrow> addr \<Rightarrow> 32 word \<Rightarrow> kernel \<Rightarrow> fault + int \<times> kernel" where
  "mchp_pit64_dt_init e node mode s =
     (let base = of_iomap e node;
          s1 = emit (Of_iomap node base) s
      in if base = 0 then Inr (- ENXIO, s1)
         else
           let c = of_clk_get e node;
               s2 = emit (Of_clk_get node c) s1
           in case c of
                Inl err \<Rightarrow> Inr (mchp_pit64_dt_init_unmap base err s2)
              | Inr clk \<Rightarrow>
                  if mode = MCHP_PIT64_MODE_CLKSRC then
                    if data_csd s2 \<noteq> 0
                    then Inr (mchp_pit64_dt_init_clock_put clk base (- EBUSY) s2)
                    else (case mchp_pit64_dt_init_clksrc e base clk s2 of
                            Inl f \<Rightarrow> Inl f
                          | Inr (ret, s3) \<Rightarrow>
                              if ret \<noteq> 0 then Inr (mchp_pit64_dt_init_clock_put clk base ret s3)
                              else Inr (0, s3))
                  else if mode = MCHP_PIT64_MODE_CLKEVT then
                    if data_ced s2 \<noteq> 0
                    then Inr (mchp_pit64_dt_init_clock_put clk base (- EBUSY) s2)
                    else
                      let irq = irq_of_parse_and_map e node;
                          s3 = emit (Irq_of_parse_and_map node irq) s2
                      in if irq = 0
                         then Inr (mchp_pit64_dt_init_clock_put clk base (- ENODEV) s3)
                         else (case mchp_pit64_dt_init_clkevt e base clk irq s3 of
                                 Inl f \<Rightarrow> Inl f
                               | Inr (ret, s4) \<Rightarrow>
                                   if ret \<noteq> 0
                                   then Inr (mchp_pit64_dt_init_irq_unmap irq clk base ret s4)
                                   else Inr (0, s4))
                  else Inr (mchp_pit64_dt_init_clock_put clk base (- EINVAL) s2))"

definition mchp_pit64_clksrc_dt_init :: "env \<Rightarrow> addr \<Rightarrow> kernel \<Rightarrow> fault + int \<times> kernel" where
  "mchp_pit64_clksrc_dt_init e node s = mchp_pit64_dt_init e node MCHP_PIT64_MODE_CLKSRC s"

definition mchp_pit64_clkevt_dt_init :: "env \<Rightarrow> addr \<Rightarrow> kernel \<Rightarrow> fault + int \<times> kernel" where
  "mchp_pit64_clkevt_dt_init e node s = mchp_pit64_dt_init e node MCHP_PIT64_MODE_CLKEVT s"


subsection \<open>A concrete configuration\<close>

text \<open>
  A board on which both time services can be instantiated: the register window at
  \<open>0xE1800000\<close>, a clock handle, interrupt line 34, and a clock of the given rate. The
  interrupt status register reads 1 (period expired), every other register 0.
\<close>

definition example_env :: "32 word \<Rightarrow> env" where
  "example_env rate =
     \<lparr> readl_relaxed = (\<lambda>t a. if a = 0xE180001C then 1 else 0),
       of_iomap = (\<lambda>node. 0xE1800000),
       of_clk_get = (\<lambda>node. Inr 0xC0001000),
       irq_of_parse_and_map = (\<lambda>node. 34),
       kzalloc = 0xC0003000,
       clk_prepare_enable = (\<lambda>clk. 0),
       clk_get_rate = (\<lambda>clk. rate),
       request_irq = (\<lambda>irq dev_id. 0),
       clocksource_register_hz = (\<lambda>rate. 0),
       HZ = 100 \<rparr>"

definition example_ced :: pit64_clkevt_data where
  "example_ced =
     \<lparr> ced_clkevt = Clkevt_static,
       ced_cd = \<lparr>cd_base = 0xE1800000, cd_clk = 0xC0001000, cd_cycles = 24615, cd_pres = 13\<rparr> \<rparr>"

definition example_csd :: pit64_clksrc_data where
  "example_csd =
     \<lparr> csd_clksrc = Clksrc_static,
       csd_cd = \<lparr>cd_base = 0xE1804000, cd_clk = 0xC0001100, cd_cycles = - 1, cd_pres = 13\<rparr> \<rparr>"

text \<open>The state before any instantiation, and a state with both instances registered.\<close>

definition boot_kernel :: kernel where
  "boot_kernel =
     \<lparr> trace = [], data_csd = 0, data_ced = 0, csd_mem = Map.empty, ced_mem = Map.empty,
       clkevt_state = Shutdown, clkevt_cpumask = {}, clkevt_irq = 0 \<rparr>"

definition live_kernel :: "clock_event_state \<Rightarrow> kernel" where
  "live_kernel st =
     \<lparr> trace = [], data_csd = 0xC0002100, data_ced = 0xC0002000,
       csd_mem = [0xC0002100 \<mapsto> example_csd], ced_mem = [0xC0002000 \<mapsto> example_ced],
       clkevt_state = st, clkevt_cpumask = {0}, clkevt_irq = 34 \<rparr>"

lemma live_kernel_simps:
  "trace (live_kernel st) = []"
  "data_ced (live_kernel st) = 0xC0002000"
  "data_csd (live_kernel st) = 0xC0002100"
  "clkevt_state (live_kernel st) = st"
  "deref_ced (live_kernel st) 0xC0002000 = Inr example_ced"
  "deref_csd (live_kernel st) 0xC0002100 = Inr example_csd"
  by (simp_all add: live_kernel_def deref_ced_def deref_csd_def)

lemma example_ced_simps:
  "ced_clkevt example_ced = Clkevt_static"
  "cd_base (ced_cd example_ced) = 0xE1800000"
  "cd_clk (ced_cd example_ced) = 0xC0001000"
  "cd_cycles (ced_cd example_ced) = 24615"
  "cd_pres (ced_cd example_ced) = 13"
  by (simp_all add: example_ced_def)

lemma example_env_simps:
  "readl_relaxed (example_env r) t a = (if a = 0xE180001C then 1 else 0)"
  "of_iomap (example_env r) node = 0xE1800000"
  "of_clk_get (example_env r) node = Inr 0xC0001000"
  "irq_of_parse_and_map (example_env r) node = 34"
  "kzalloc (example_env r) = 0xC0003000"
  "clk_prepare_enable (example_env r) clk = 0"
  "clk_get_rate (example_env r) clk = r"
  "request_irq (example_env r) irq dev_id = 0"
  "clocksource_register_hz (example_env r) rate = 0"
  "HZ (example_env r) = 100"
  by (simp_all add: example_env_def)

section \<open>Word arithmetic used below\<close>

lemma unat_succ16: "(p :: 16 word) < 0x10 \<Longrightarrow> unat (p + 1) = unat p + 1"
  by (simp add: word_less_nat_alt unat_word_ariths)

lemma unat_succ32: "(p :: 32 word) < 0x10 \<Longrightarrow> unat (p + 1) = unat p + 1"
  by (simp add: word_less_nat_alt unat_word_ariths)

lemma unat_up: "unat (ucast (w :: 32 word) :: 64 word) = unat w"
proof -
  have "unat w < 2 ^ 32" using unsigned_less [of w, where 'a = nat] by simp
  then show ?thesis by (simp add: unsigned_ucast_eq take_bit_nat_eq_self)
qed

lemma unat_up16: "unat (ucast (p :: 16 word) :: 32 word) = unat p"
proof -
  have "unat p < 2 ^ 16" using unsigned_less [of p, where 'a = nat] by simp
  then show ?thesis by (simp add: unsigned_ucast_eq take_bit_nat_eq_self)
qed

lemma mask32: "(0xFFFFFFFF :: 64 word) = mask 32"
  by (simp add: mask_eq_exp_minus_1)

lemma lo_word: "(ucast ((v :: 64 word) AND 0xFFFFFFFF) :: 32 word) = ucast v"
  unfolding mask32 by (rule bit_word_eqI) (auto simp: bit_simps)

lemma unat_lo: "unat (ucast (v :: 64 word) :: 32 word) = unat v mod 2 ^ 32"
  by (simp add: unsigned_ucast_eq take_bit_eq_mod)

lemma unat_hi: "unat (ucast (drop_bit 32 (v :: 64 word)) :: 32 word) = unat v div 2 ^ 32"
proof -
  have "unat v < 2 ^ 64" using unsigned_less [of v, where 'a = nat] by simp
  then have "unat v div 2 ^ 32 < 2 ^ 32" by (simp add: less_mult_imp_div_less)
  then show ?thesis
    by (simp add: unsigned_ucast_eq take_bit_eq_mod drop_bit_eq_div unat_div)
qed

lemma unat_combine:
  "unat (push_bit 32 (ucast (msb :: 32 word)) OR ucast (lsb :: 32 word) :: 64 word)
     = unat msb * 2 ^ 32 + unat lsb"
proof -
  have disj: "push_bit 32 (ucast msb :: 64 word) AND ucast lsb = 0"
    by (rule bit_word_eqI) (auto simp: bit_simps dest: bit_imp_le_length)
  have m: "unat msb < 2 ^ 32" and l: "unat lsb < 2 ^ 32"
    using unsigned_less [of msb, where 'a = nat] unsigned_less [of lsb, where 'a = nat]
    by simp_all
  have "push_bit 32 (ucast msb :: 64 word) OR ucast lsb = push_bit 32 (ucast msb) + ucast lsb"
    using disjunctive_add_eq_or [OF disj] by simp
  moreover have "unat (push_bit 32 (ucast msb :: 64 word) + ucast lsb)
                   = unat msb * 2 ^ 32 + unat lsb"
    using m l by (simp add: unat_word_ariths unat_up push_bit_eq_mult)
  ultimately show ?thesis by simp
qed

lemma hi_of_ulong: "(ucast (drop_bit 32 (ucast (evt :: 32 word) :: 64 word)) :: 32 word) = 0"
  by (rule bit_word_eqI) (auto simp: bit_simps dest: bit_imp_le_length)

lemma lo_of_ulong: "(ucast (ucast (evt :: 32 word) :: 64 word) :: 32 word) = evt"
  by (rule bit_word_eqI) (auto simp: bit_simps)

text \<open>The prescaler field of the mode register, bits 11..8, holds \<open>pres - 1\<close>.\<close>

lemma pres_field:
  assumes "1 \<le> unat (p :: 8 word)" and "unat p \<le> 16"
  shows "unat (0xF00 AND push_bit 8 (ucast p - 1) :: 32 word) = 256 * (unat p - 1)"
proof -
  have "unat p = 1 \<or> unat p = 2 \<or> unat p = 3 \<or> unat p = 4 \<or> unat p = 5 \<or> unat p = 6
      \<or> unat p = 7 \<or> unat p = 8 \<or> unat p = 9 \<or> unat p = 10 \<or> unat p = 11 \<or> unat p = 12
      \<or> unat p = 13 \<or> unat p = 14 \<or> unat p = 15 \<or> unat p = 16"
    using assms by arith
  then have "p = 1 \<or> p = 2 \<or> p = 3 \<or> p = 4 \<or> p = 5 \<or> p = 6 \<or> p = 7 \<or> p = 8 \<or> p = 9
      \<or> p = 10 \<or> p = 11 \<or> p = 12 \<or> p = 13 \<or> p = 14 \<or> p = 15 \<or> p = 16"
    by (simp add: word_unat_eq_iff)
  then show ?thesis
    by (elim disjE; simp)
qed


section \<open>The prescaler solver\<close>

text \<open>The loop tests, read as natural numbers.\<close>

lemma pit64_test_nat:
  "((ucast (c div ucast (p :: 16 word) :: 32 word) :: 64 word) \<le> m)
     = (unat c div unat p \<le> unat m)"
  by (simp add: word_le_nat_alt unat_up unat_up16 unat_div)

lemma mchp_test_nat:
  "(p :: 32 word) < 0x10 \<Longrightarrow>
   ((ucast (c div (p + 1) :: 32 word) :: 64 word) \<le> m) = (unat c div (unat p + 1) \<le> unat m)"
  by (simp add: word_le_nat_alt unat_up unat_div unat_succ32)

text \<open>
  One step of each loop: it stops at 16, returns at a divider that meets the bound, and
  moves on otherwise. The legacy loop, entered at \<open>p0\<close>, therefore stops at the first
  divider from \<open>p0\<close> on that meets the bound, or at 16; the current loop does the same over
  the index \<open>pres\<close>, testing the divider \<open>pres + 1\<close>.
\<close>

lemma pit64_pres_loop_stop: "\<not> p < 0x10 \<Longrightarrow> pit64_pres_loop c m p = p"
  by (subst pit64_pres_loop.simps) (simp add: AT91_PRES_MAX_def)

lemma pit64_pres_loop_hit:
  "p < 0x10 \<Longrightarrow> unat c div unat p \<le> unat m \<Longrightarrow> pit64_pres_loop c m p = p"
  by (subst pit64_pres_loop.simps) (simp add: AT91_PRES_MAX_def pit64_test_nat)

lemma pit64_pres_loop_miss:
  "p < 0x10 \<Longrightarrow> \<not> unat c div unat p \<le> unat m \<Longrightarrow> pit64_pres_loop c m p = pit64_pres_loop c m (p + 1)"
  by (subst pit64_pres_loop.simps) (simp add: AT91_PRES_MAX_def pit64_test_nat)

lemma pit64_pres_loop_first_fit:
  "unat p0 \<le> 16 \<Longrightarrow>
   unat p0 \<le> unat (pit64_pres_loop c m p0) \<and> unat (pit64_pres_loop c m p0) \<le> 16 \<and>
   (unat (pit64_pres_loop c m p0) < 16 \<longrightarrow>
      unat c div unat (pit64_pres_loop c m p0) \<le> unat m) \<and>
   (\<forall>q. unat p0 \<le> q \<and> q < unat (pit64_pres_loop c m p0) \<longrightarrow> \<not> unat c div q \<le> unat m)"
proof (induction c m p0 rule: pit64_pres_loop.induct)
  case (1 c m p)
  show ?case
  proof (cases "p < 0x10")
    case False
    with "1.prems" have "unat p = 16" by (simp add: word_less_nat_alt)
    then show ?thesis by (simp add: pit64_pres_loop_stop [OF False])
  next
    case lt: True
    show ?thesis
    proof (cases "unat c div unat p \<le> unat m")
      case True
      with lt show ?thesis by (simp add: pit64_pres_loop_hit word_less_nat_alt)
    next
      case False
      have eq: "pit64_pres_loop c m p = pit64_pres_loop c m (p + 1)"
        using lt False by (rule pit64_pres_loop_miss)
      have suc: "unat (p + 1) = unat p + 1" using lt by (rule unat_succ16)
      have bound: "unat (p + 1) \<le> 16" using lt by (simp add: suc word_less_nat_alt)
      have lt': "p < AT91_PRES_MAX" using lt by (simp add: AT91_PRES_MAX_def)
      have miss: "\<not> (ucast (c div ucast p :: 32 word) :: 64 word) \<le> m"
        using lt False by (simp add: pit64_test_nat)
      note ih = "1.IH" [OF lt' refl miss bound]
      have "\<not> unat c div q \<le> unat m"
        if q: "unat p \<le> q" "q < unat (pit64_pres_loop c m (p + 1))" for q
      proof (cases "q = unat p")
        case True
        with False show ?thesis by simp
      next
        case neq: False
        with q have "unat (p + 1) \<le> q" by (simp add: suc)
        with ih q show ?thesis by blast
      qed
      with ih show ?thesis unfolding eq by (simp add: suc)
    qed
  qed
qed

lemma mchp_pit64_pres_loop_stop: "\<not> p < 0x10 \<Longrightarrow> mchp_pit64_pres_loop c m p = p"
  by (subst mchp_pit64_pres_loop.simps) (simp add: MCHP_PRES_MAX_def)

lemma mchp_pit64_pres_loop_hit:
  "p < 0x10 \<Longrightarrow> unat c div (unat p + 1) \<le> unat m \<Longrightarrow> mchp_pit64_pres_loop c m p = p"
  by (subst mchp_pit64_pres_loop.simps) (simp add: MCHP_PRES_MAX_def mchp_test_nat)

lemma mchp_pit64_pres_loop_miss:
  "p < 0x10 \<Longrightarrow> \<not> unat c div (unat p + 1) \<le> unat m \<Longrightarrow> mchp_pit64_pres_loop c m p = mchp_pit64_pres_loop c m (p + 1)"
  by (subst mchp_pit64_pres_loop.simps) (simp add: MCHP_PRES_MAX_def mchp_test_nat)

lemma mchp_pit64_pres_loop_first_fit:
  "unat p0 \<le> 16 \<Longrightarrow>
   unat p0 \<le> unat (mchp_pit64_pres_loop c m p0) \<and> unat (mchp_pit64_pres_loop c m p0) \<le> 16 \<and>
   (unat (mchp_pit64_pres_loop c m p0) < 16 \<longrightarrow>
      unat c div (unat (mchp_pit64_pres_loop c m p0) + 1) \<le> unat m) \<and>
   (\<forall>q. unat p0 \<le> q \<and> q < unat (mchp_pit64_pres_loop c m p0) \<longrightarrow> \<not> unat c div (q + 1) \<le> unat m)"
proof (induction c m p0 rule: mchp_pit64_pres_loop.induct)
  case (1 c m p)
  show ?case
  proof (cases "p < 0x10")
    case False
    with "1.prems" have "unat p = 16" by (simp add: word_less_nat_alt)
    then show ?thesis by (simp add: mchp_pit64_pres_loop_stop [OF False])
  next
    case lt: True
    show ?thesis
    proof (cases "unat c div (unat p + 1) \<le> unat m")
      case True
      with lt show ?thesis by (simp add: mchp_pit64_pres_loop_hit word_less_nat_alt)
    next
      case False
      have eq: "mchp_pit64_pres_loop c m p = mchp_pit64_pres_loop c m (p + 1)"
        using lt False by (rule mchp_pit64_pres_loop_miss)
      have suc: "unat (p + 1) = unat p + 1" using lt by (rule unat_succ32)
      have bound: "unat (p + 1) \<le> 16" using lt by (simp add: suc word_less_nat_alt)
      have lt': "p < MCHP_PRES_MAX" using lt by (simp add: MCHP_PRES_MAX_def)
      have miss: "\<not> (ucast (c div (p + 1) :: 32 word) :: 64 word) \<le> m"
        using lt False by (simp add: mchp_test_nat)
      note ih = "1.IH" [OF lt' refl miss bound]
      have "\<not> unat c div (q + 1) \<le> unat m"
        if q: "unat p \<le> q" "q < unat (mchp_pit64_pres_loop c m (p + 1))" for q
      proof (cases "q = unat p")
        case True
        with False show ?thesis by simp
      next
        case neq: False
        with q have "unat (p + 1) \<le> q" by (simp add: suc)
        with ih q show ?thesis by blast
      qed
      with ih show ?thesis unfolding eq by (simp add: suc)
    qed
  qed
qed

text \<open>
  The legacy clamp \<open>if (pres == AT91_PRES_MAX + 1)\<close> never fires: the loop leaves \<open>pres\<close> at
  16 at most, so the function returns what the loop returns.
\<close>

lemma pit64_pres_compute_eq: "pit64_pres_compute c m = pit64_pres_loop c m 2"
proof -
  have "unat (pit64_pres_loop c m 2) \<le> 16"
    using pit64_pres_loop_first_fit [of 2 c m] by simp
  then have "pit64_pres_loop c m 2 \<noteq> 0x11" by auto
  then show ?thesis by (simp add: pit64_pres_compute_def AT91_PRES_MAX_def Let_def)
qed

lemma unat_mchp_pit64_pres_compute:
  "unat (mchp_pit64_pres_compute c m) =
     (if unat (mchp_pit64_pres_loop c m 0) = 16 then 15 else unat (mchp_pit64_pres_loop c m 0))"
proof -
  have le: "unat (mchp_pit64_pres_loop c m 0) \<le> 16"
    using mchp_pit64_pres_loop_first_fit [of 0 c m] by simp
  have down: "unat (ucast (w :: 32 word) :: 16 word) = unat w" if "unat w \<le> 16" for w
    using that by (simp add: unsigned_ucast_eq take_bit_nat_eq_self)
  show ?thesis
  proof (cases "mchp_pit64_pres_loop c m 0 = 0x10")
    case True
    then show ?thesis by (simp add: mchp_pit64_pres_compute_def MCHP_PRES_MAX_def)
  next
    case False
    then have "unat (mchp_pit64_pres_loop c m 0) \<noteq> 16"
      by (simp add: word_unat_eq_iff)
    with False le show ?thesis
      by (simp add: mchp_pit64_pres_compute_def MCHP_PRES_MAX_def Let_def down)
  qed
qed

text \<open>The range of each solver, for all inputs.\<close>

lemma pit64_pres_compute_range:
  "2 \<le> unat (pit64_pres_compute c m) \<and> unat (pit64_pres_compute c m) \<le> 16"
  using pit64_pres_loop_first_fit [of 2 c m] by (simp add: pit64_pres_compute_eq)

lemma mchp_pit64_pres_compute_range: "unat (mchp_pit64_pres_compute c m) \<le> 15"
  using mchp_pit64_pres_loop_first_fit [of 0 c m]
  by (simp add: unat_mchp_pit64_pres_compute)

text \<open>
  The current solver returns 0 exactly when the undivided clock already meets the bound.
\<close>

lemma mchp_pit64_pres_compute_zero_iff:
  "(mchp_pit64_pres_compute c m = 0) = (unat c \<le> unat m)"
proof -
  let ?r = "mchp_pit64_pres_loop c m 0"
  have ff: "unat ?r \<le> 16 \<and> (unat ?r < 16 \<longrightarrow> unat c div (unat ?r + 1) \<le> unat m) \<and>
            (\<forall>q. q < unat ?r \<longrightarrow> \<not> unat c div (q + 1) \<le> unat m)"
    using mchp_pit64_pres_loop_first_fit [of 0 c m] by simp
  have "(unat (mchp_pit64_pres_compute c m) = 0) = (unat c \<le> unat m)"
  proof
    assume "unat (mchp_pit64_pres_compute c m) = 0"
    then have "unat ?r = 0"
      by (simp add: unat_mchp_pit64_pres_compute split: if_splits)
    with ff show "unat c \<le> unat m" by simp
  next
    assume le: "unat c \<le> unat m"
    have "unat ?r = 0"
    proof (rule ccontr)
      assume "unat ?r \<noteq> 0"
      then have "0 < unat ?r" by simp
      with ff have "\<not> unat c div (0 + 1) \<le> unat m" by blast
      with le show False by simp
    qed
    then show "unat (mchp_pit64_pres_compute c m) = 0"
      by (simp add: unat_mchp_pit64_pres_compute)
  qed
  then show ?thesis by (simp add: word_unat_eq_iff)
qed

text \<open>
  C1. The claim: for all positive rates both solvers return a divider in [1,16], never 0,
  the current solver's result being the value its callers divide by. The legacy solver
  stays in [2,16] (\<open>pit64_pres_compute_range\<close>). The current solver returns the index
  \<open>divider - 1\<close> in [0,15], and 0 whenever the clock rate does not exceed the target: at a
  2 MHz clock and the driver's 2.5 MHz target the value its callers divide by is 0.
\<close>

theorem mchp_pres_compute_returns_zero:
  "mchp_pit64_pres_compute 2000000 MCHP_PIT64_CS_RATE = 0 \<and>
   \<not> (1 \<le> unat (mchp_pit64_pres_compute 2000000 MCHP_PIT64_CS_RATE))"
  by (simp add: mchp_pit64_pres_compute_def mchp_pit64_pres_loop.simps pit64_consts)

text \<open>
  C2. The claim: at a 32 MHz clock and a 2.5 MHz target both solvers return 13, the value
  the init functions divide the clock rate by. The legacy solver returns 13. The current
  solver finds that divider 13 meets the bound and returns its index 12; its init function
  stores 12 as the divider and registers the clocksource at 32000000 / 12 = 2666666 Hz,
  above the target.
\<close>

theorem mchp_pres_compute_32MHz_returns_12:
  "pit64_pres_compute 32000000 2500000 = 13 \<and>
   mchp_pit64_pres_compute 32000000 2500000 = 12 \<and>
   (case mchp_pit64_clksrc_dt_init (example_env 32000000) 0xC0000100 boot_kernel of
      Inl f \<Rightarrow> False
    | Inr (ret, s) \<Rightarrow>
        ret = 0 \<and> map_option (\<lambda>d. cd_pres (csd_cd d)) (csd_mem s (data_csd s)) = Some 12 \<and>
        last (trace s) = Sched_clock_register 2666666)"
  by (simp add: mchp_pit64_clksrc_dt_init_def mchp_pit64_dt_init_def
      mchp_pit64_dt_init_clksrc_def mchp_pit64_reset_def mchp_pit64_set_period_def
      mchp_pit64_write_def pit64_pres_compute_def mchp_pit64_pres_compute_def Let_def
      pit64_pres_loop.simps mchp_pit64_pres_loop.simps
      pit64_consts example_env_simps emit_def boot_kernel_def)

text \<open>
  The legacy constructors never divide by zero: the stored divider is the solver's
  result, between 2 and 16.
\<close>

lemma pit64_stored_pres_nonzero: "(ucast (pit64_pres_compute c m) :: 8 word) \<noteq> 0"
proof -
  let ?d = "pit64_pres_compute c m"
  have r: "2 \<le> unat ?d \<and> unat ?d \<le> 16" by (rule pit64_pres_compute_range)
  then have "unat (ucast ?d :: 8 word) = unat ?d"
    by (simp add: unsigned_ucast_eq take_bit_nat_eq_self)
  with r have "unat (ucast ?d :: 8 word) \<noteq> 0" by simp
  then show ?thesis by (simp add: word_unat_eq_iff)
qed

lemma pit64_dt_init_clksrc_no_div_by_zero:
  "pit64_dt_init_clksrc e base clk s \<noteq> Inl Div_by_zero"
  by (simp add: pit64_dt_init_clksrc_def Let_def pit64_stored_pres_nonzero)

text \<open>
  The current constructors divide by zero for every clock that does not exceed the
  target rate of 2.5 MHz, once the allocation and the clock enable have succeeded.
\<close>

lemma mchp_pit64_dt_init_clksrc_div_by_zero:
  assumes "kzalloc e \<noteq> 0" and "clk_prepare_enable e clk = 0"
    and "unat (clk_get_rate e clk) \<le> 2500000"
  shows "mchp_pit64_dt_init_clksrc e base clk s = Inl Div_by_zero"
proof -
  have "mchp_pit64_pres_compute (clk_get_rate e clk) MCHP_PIT64_CS_RATE = 0"
    using assms(3) by (simp add: mchp_pit64_pres_compute_zero_iff MCHP_PIT64_CS_RATE_def)
  with assms(1,2) show ?thesis
    by (simp add: mchp_pit64_dt_init_clksrc_def Let_def)
qed

lemma mchp_pit64_dt_init_clkevt_div_by_zero:
  assumes "kzalloc e \<noteq> 0" and "clk_prepare_enable e clk = 0"
    and "unat (clk_get_rate e clk) \<le> 2500000"
  shows "mchp_pit64_dt_init_clkevt e base clk irq s = Inl Div_by_zero"
proof -
  have "mchp_pit64_pres_compute (clk_get_rate e clk) MCHP_PIT64_CE_RATE = 0"
    using assms(3) by (simp add: mchp_pit64_pres_compute_zero_iff MCHP_PIT64_CE_RATE_def)
  with assms(1,2) show ?thesis
    by (simp add: mchp_pit64_dt_init_clkevt_def Let_def)
qed

text \<open>
  C10. The claim: for every positive clock rate the division of the clock rate by the
  solver's result in the current variant's init functions has a nonzero divisor. With a
  2 MHz clock the solver returns 0 and both constructors, and the two entry points that
  reach them, divide by zero.
\<close>

theorem mchp_init_divides_by_zero:
  "mchp_pit64_dt_init_clksrc (example_env 2000000) 0xE1800000 0xC0001000 boot_kernel
     = Inl Div_by_zero \<and>
   mchp_pit64_dt_init_clkevt (example_env 2000000) 0xE1800000 0xC0001000 34 boot_kernel
     = Inl Div_by_zero \<and>
   mchp_pit64_clksrc_dt_init (example_env 2000000) 0xC0000100 boot_kernel = Inl Div_by_zero \<and>
   mchp_pit64_clkevt_dt_init (example_env 2000000) 0xC0000100 boot_kernel = Inl Div_by_zero"
  by (simp add: mchp_pit64_clksrc_dt_init_def mchp_pit64_clkevt_dt_init_def
      mchp_pit64_dt_init_def mchp_pit64_dt_init_clksrc_def mchp_pit64_dt_init_clkevt_def
      mchp_pit64_pres_compute_def mchp_pit64_pres_loop.simps Let_def pit64_consts
      example_env_simps emit_def boot_kernel_def)

text \<open>
  C5. The claim: for positive rates with input rate at least the target rate, the
  returned divider \<open>d\<close> of both solvers meets \<open>input / d \<le> target\<close> or is the maximum, and no
  smaller legal divider meets the bound. It fails for both. The current solver returns 12
  at 32 MHz and 2.5 MHz, and 32000000 / 12 exceeds the target. The legacy solver never
  tries divider 1: at equal rates it returns 2 although divider 1 meets the bound.
\<close>

theorem pres_first_fit_counterexample:
  "\<not> (unat (32000000 :: 32 word) div unat (mchp_pit64_pres_compute 32000000 2500000)
        \<le> unat (2500000 :: 64 word)
      \<or> unat (mchp_pit64_pres_compute 32000000 2500000) = 16) \<and>
   (1 :: nat) < unat (pit64_pres_compute 2500000 2500000) \<and>
   unat (2500000 :: 32 word) div 1 \<le> unat (2500000 :: 64 word)"
  by (simp add: pit64_pres_compute_def mchp_pit64_pres_compute_def pit64_pres_loop.simps
      mchp_pit64_pres_loop.simps pit64_consts)

text \<open>
  C5, amended. For all rates: the legacy solver returns a divider \<open>d\<close> in [2,16] with
  \<open>input / d \<le> target\<close> or \<open>d = 16\<close>, and no divider from 2 up to \<open>d - 1\<close> meets the bound
  (nor does divider 1 when the input rate exceeds the target). The current solver returns
  the index \<open>p = divider - 1\<close> in [0,15]: the divider \<open>p + 1\<close> meets the bound or is 16, and
  no divider from 1 up to \<open>p\<close> meets it.
\<close>

theorem pres_compute_first_fit:
  "(let d = unat (pit64_pres_compute clk_rate max_rate)
    in 2 \<le> d \<and> d \<le> 16 \<and>
       (unat clk_rate div d \<le> unat max_rate \<or> d = 16) \<and>
       (\<forall>d'. 2 \<le> d' \<and> d' < d \<longrightarrow> \<not> unat clk_rate div d' \<le> unat max_rate) \<and>
       (unat max_rate < unat clk_rate \<longrightarrow>
          (\<forall>d'. 1 \<le> d' \<and> d' < d \<longrightarrow> \<not> unat clk_rate div d' \<le> unat max_rate))) \<and>
   (let p = unat (mchp_pit64_pres_compute clk_rate max_rate)
    in p \<le> 15 \<and>
       (unat clk_rate div (p + 1) \<le> unat max_rate \<or> p + 1 = 16) \<and>
       (\<forall>d'. 1 \<le> d' \<and> d' < p + 1 \<longrightarrow> \<not> unat clk_rate div d' \<le> unat max_rate))"
proof -
  let ?d = "unat (pit64_pres_compute clk_rate max_rate)"
  let ?r = "unat (mchp_pit64_pres_loop clk_rate max_rate 0)"
  let ?p = "unat (mchp_pit64_pres_compute clk_rate max_rate)"
  have l: "2 \<le> ?d \<and> ?d \<le> 16 \<and> (?d < 16 \<longrightarrow> unat clk_rate div ?d \<le> unat max_rate) \<and>
           (\<forall>q. 2 \<le> q \<and> q < ?d \<longrightarrow> \<not> unat clk_rate div q \<le> unat max_rate)"
    using pit64_pres_loop_first_fit [of 2 clk_rate max_rate]
    by (simp add: pit64_pres_compute_eq)
  have l1: "\<not> unat clk_rate div d' \<le> unat max_rate"
    if "unat max_rate < unat clk_rate" and "1 \<le> d'" and "d' < ?d" for d'
  proof (cases "d' = 1")
    case True
    with that show ?thesis by simp
  next
    case False
    with that have "2 \<le> d'" by simp
    with l that show ?thesis by blast
  qed
  have m: "?r \<le> 16 \<and> (?r < 16 \<longrightarrow> unat clk_rate div (?r + 1) \<le> unat max_rate) \<and>
           (\<forall>q. q < ?r \<longrightarrow> \<not> unat clk_rate div (q + 1) \<le> unat max_rate)"
    using mchp_pit64_pres_loop_first_fit [of 0 clk_rate max_rate] by simp
  have p: "?p = (if ?r = 16 then 15 else ?r)"
    by (rule unat_mchp_pit64_pres_compute)
  have m1: "?p \<le> 15" using m p by (simp split: if_splits)
  have m2: "unat clk_rate div (?p + 1) \<le> unat max_rate \<or> ?p + 1 = 16"
    using m p by (cases "?r = 16") simp_all
  have m3: "\<not> unat clk_rate div d' \<le> unat max_rate" if "1 \<le> d'" and "d' < ?p + 1" for d'
  proof -
    from that p m have "d' - 1 < ?r" by (simp split: if_splits)
    with m have "\<not> unat clk_rate div (d' - 1 + 1) \<le> unat max_rate" by blast
    with that show ?thesis by simp
  qed
  from l have l2: "unat clk_rate div ?d \<le> unat max_rate \<or> ?d = 16"
    by (cases "?d < 16") simp_all
  show ?thesis
    unfolding Let_def using l l1 l2 m1 m2 m3 by blast
qed

theorem pres_compute_first_fit_witness:
  "unat (pit64_pres_compute 32000000 2500000) = 13 \<and>
   unat (2500000 :: 64 word) < unat (32000000 :: 32 word) \<and>
   (2 :: nat) \<le> 12 \<and> (12 :: nat) < unat (pit64_pres_compute 32000000 2500000) \<and>
   \<not> unat (32000000 :: 32 word) div 12 \<le> unat (2500000 :: 64 word) \<and>
   unat (mchp_pit64_pres_compute 32000000 2500000) + 1 = 13 \<and>
   (1 :: nat) \<le> 12 \<and> (12 :: nat) < unat (mchp_pit64_pres_compute 32000000 2500000) + 1"
  using pres_compute_first_fit [of 32000000 2500000]
  by (simp add: pit64_pres_compute_def mchp_pit64_pres_compute_def pit64_pres_loop.simps
      mchp_pit64_pres_loop.simps pit64_consts)

section \<open>Register protocol\<close>

lemma pit64_set_period_trace:
  "pit64_set_period base v s =
     s\<lparr>trace := trace s @ [Writel (base + 0x0C) (ucast (drop_bit 32 v)),
                            Writel (base + 0x08) (ucast v)]\<rparr>"
  by (simp add: pit64_set_period_def pit64_write_def emit_def pit64_consts lo_word)

lemma mchp_pit64_set_period_trace:
  "mchp_pit64_set_period base v s =
     s\<lparr>trace := trace s @ [Writel (base + 0x0C) (ucast (drop_bit 32 v)),
                            Writel (base + 0x08) (ucast v)]\<rparr>"
  by (simp add: mchp_pit64_set_period_def mchp_pit64_write_def emit_def pit64_consts lo_word)

lemma pit64_get_period_trace:
  "pit64_get_period e base s =
     (let lsb = readl_relaxed e (trace s) (base + 0x20);
          t1 = trace s @ [Readl (base + 0x20) lsb];
          msb = readl_relaxed e t1 (base + 0x24)
      in (push_bit 32 (ucast msb) OR ucast lsb, s\<lparr>trace := t1 @ [Readl (base + 0x24) msb]\<rparr>))"
  by (simp add: pit64_get_period_def pit64_read_def emit_def pit64_consts Let_def)

lemma mchp_pit64_get_period_trace:
  "mchp_pit64_get_period e base s =
     (let lsb = readl_relaxed e (trace s) (base + 0x20);
          t1 = trace s @ [Readl (base + 0x20) lsb];
          msb = readl_relaxed e t1 (base + 0x24)
      in (push_bit 32 (ucast msb) OR ucast lsb, s\<lparr>trace := t1 @ [Readl (base + 0x24) msb]\<rparr>))"
  by (simp add: mchp_pit64_get_period_def mchp_pit64_read_def emit_def pit64_consts Let_def)

text \<open>
  C7. In both variants, reading the counter reads the low half (offset \<open>0x20\<close>) first and
  the high half (offset \<open>0x24\<close>) second, whatever the device answers, and returns
  \<open>(high << 32) | low\<close>, the number \<open>high * 2^32 + low\<close>; writing a 64-bit value \<open>v\<close> writes
  its high 32 bits to the high period register (offset \<open>0x0C\<close>) first and its low 32 bits
  to the low period register (offset \<open>0x08\<close>) second, and does nothing else.
\<close>

theorem counter_access_order:
  "(let lsb = readl_relaxed e (trace s) (base + 0x20);
        t1 = trace s @ [Readl (base + 0x20) lsb];
        msb = readl_relaxed e t1 (base + 0x24);
        r = (push_bit 32 (ucast msb) OR ucast lsb :: 64 word);
        s' = s\<lparr>trace := trace s @ [Readl (base + 0x20) lsb, Readl (base + 0x24) msb]\<rparr>
    in pit64_get_period e base s = (r, s') \<and>
       mchp_pit64_get_period e base s = (r, s') \<and>
       unat r = unat msb * 2 ^ 32 + unat lsb) \<and>
   (let hi = (ucast (drop_bit 32 v) :: 32 word);
        lo = (ucast v :: 32 word);
        s' = s\<lparr>trace := trace s @ [Writel (base + 0x0C) hi, Writel (base + 0x08) lo]\<rparr>
    in pit64_set_period base v s = s' \<and>
       mchp_pit64_set_period base v s = s' \<and>
       unat hi = unat v div 2 ^ 32 \<and> unat lo = unat v mod 2 ^ 32)"
  unfolding Let_def
  by (intro conjI unat_combine unat_hi unat_lo)
     (simp_all add: pit64_get_period_trace mchp_pit64_get_period_trace pit64_set_period_trace
        mchp_pit64_set_period_trace Let_def)

section \<open>The reset sequence\<close>

lemma pit64_reset_trace:
  "pit64_reset d mode irq_ena s =
     s\<lparr>trace := trace s @
        [Writel (cd_base d + 0x00) 0x100,
         Writel (cd_base d + 0x04) (mode OR (0xF00 AND push_bit 8 (ucast (cd_pres d) - 1))),
         Writel (cd_base d + 0x0C) (ucast (drop_bit 32 (cd_cycles d))),
         Writel (cd_base d + 0x08) (ucast (cd_cycles d))] @
        (if irq_ena then [Writel (cd_base d + 0x10) 1] else []) @
        [Writel (cd_base d + 0x00) 1]\<rparr>"
  by (simp add: pit64_reset_def pit64_set_period_trace pit64_write_def emit_def pit64_consts
      AT91_PIT64_PRESCALER_def Let_def)

lemma mchp_pit64_reset_trace:
  "mchp_pit64_reset d mode irq_ena s =
     s\<lparr>trace := trace s @
        [Writel (cd_base d + 0x00) 0x100,
         Writel (cd_base d + 0x04) (mode OR (0xF00 AND push_bit 8 (ucast (cd_pres d) - 1))),
         Writel (cd_base d + 0x0C) (ucast (drop_bit 32 (cd_cycles d))),
         Writel (cd_base d + 0x08) (ucast (cd_cycles d))] @
        (if irq_ena then [Writel (cd_base d + 0x10) 1] else []) @
        [Writel (cd_base d + 0x00) 1]\<rparr>"
  by (simp add: mchp_pit64_reset_def mchp_pit64_set_period_trace mchp_pit64_write_def emit_def
      pit64_consts MCHP_PIT64_PRESCALER_def Let_def)

text \<open>
  C6. In both variants, for all mode flags and either value of the interrupt flag, reset
  performs exactly these register accesses, in this order: the software reset command
  (\<open>0x100\<close>) to the control register; the mode flags merged with the prescaler field
  to the mode register; the reload value, high half then low half; the period interrupt
  enable, only if requested; the start command (\<open>1\<close>) to the control register. For a
  divider from 1 to 16 the prescaler field, bits 11..8, is the divider minus one.
\<close>

theorem reset_register_sequence:
  "(let field = (0xF00 AND push_bit 8 (ucast (cd_pres d) - 1) :: 32 word);
        s' = s\<lparr>trace := trace s @
               [Writel (cd_base d + 0x00) 0x100,
                Writel (cd_base d + 0x04) (mode OR field),
                Writel (cd_base d + 0x0C) (ucast (drop_bit 32 (cd_cycles d))),
                Writel (cd_base d + 0x08) (ucast (cd_cycles d))] @
               (if irq_ena then [Writel (cd_base d + 0x10) 1] else []) @
               [Writel (cd_base d + 0x00) 1]\<rparr>
    in pit64_reset d mode irq_ena s = s' \<and>
       mchp_pit64_reset d mode irq_ena s = s' \<and>
       (1 \<le> unat (cd_pres d) \<and> unat (cd_pres d) \<le> 16 \<longrightarrow>
          unat field = 256 * (unat (cd_pres d) - 1)))"
  by (simp add: pit64_reset_trace mchp_pit64_reset_trace pres_field Let_def)

theorem reset_register_sequence_witness:
  "1 \<le> unat (cd_pres (ced_cd example_ced)) \<and> unat (cd_pres (ced_cd example_ced)) \<le> 16 \<and>
   pit64_reset (ced_cd example_ced) 0x1 True boot_kernel =
     boot_kernel\<lparr>trace :=
       [Writel 0xE1800000 0x100, Writel 0xE1800004 0xC01, Writel 0xE180000C 0,
        Writel 0xE1800008 24615, Writel 0xE1800010 1, Writel 0xE1800000 1]\<rparr> \<and>
   mchp_pit64_reset (ced_cd example_ced) 0x10 False boot_kernel =
     boot_kernel\<lparr>trace :=
       [Writel 0xE1800000 0x100, Writel 0xE1800004 0xC10, Writel 0xE180000C 0,
        Writel 0xE1800008 24615, Writel 0xE1800000 1]\<rparr> \<and>
   unat (0xF00 AND push_bit 8 (ucast (cd_pres (ced_cd example_ced)) - 1) :: 32 word) = 256 * 12"
  using reset_register_sequence [of "ced_cd example_ced" boot_kernel "0x1" True]
    reset_register_sequence [of "ced_cd example_ced" boot_kernel "0x10" False]
  by (simp add: example_ced_simps boot_kernel_def Let_def)

section \<open>Clockevent callbacks\<close>

lemma deref_ced_state: "deref_ced (s\<lparr>clkevt_state := st\<rparr>) p = deref_ced s p"
  by (simp add: deref_ced_def)

lemma pit64_set_next_event_trace:
  assumes "deref_ced s (data_ced s) = Inr ced"
  shows "pit64_clkevt_set_next_event evt s =
           Inr (0, s\<lparr>trace := trace s @
                  [Writel (cd_base (ced_cd ced) + 0x0C) 0,
                   Writel (cd_base (ced_cd ced) + 0x08) evt,
                   Writel (cd_base (ced_cd ced) + 0x00) 1]\<rparr>)"
  using assms
  by (simp add: pit64_clkevt_set_next_event_def pit64_set_period_trace pit64_write_def emit_def
      pit64_consts hi_of_ulong lo_of_ulong)

lemma mchp_pit64_set_next_event_trace:
  assumes "deref_ced s (data_ced s) = Inr ced"
  shows "mchp_pit64_clkevt_set_next_event evt s =
           Inr (0, s\<lparr>trace := trace s @
                  [Writel (cd_base (ced_cd ced) + 0x0C) 0,
                   Writel (cd_base (ced_cd ced) + 0x08) evt,
                   Writel (cd_base (ced_cd ced) + 0x00) 1]\<rparr>)"
  using assms
  by (simp add: mchp_pit64_clkevt_set_next_event_def mchp_pit64_set_period_trace
      mchp_pit64_write_def emit_def pit64_consts hi_of_ulong lo_of_ulong)

text \<open>
  C9. With a registered clockevent instance, in every clockevent state (Shutdown,
  Periodic or OneShot) and for every delta, the \<open>set_next_event\<close> callback of both device
  tables writes delta as the reload value, high half (0 for a 32-bit delta) then low
  half, issues the start command and returns 0. It never reports a wrong-state error and
  never leaves the registers alone because of the state.
\<close>

theorem set_next_event_unconditional:
  assumes "deref_ced s (data_ced s) = Inr ced"
  shows "set_next_event clkevt evt (s\<lparr>clkevt_state := st\<rparr>) =
           Inr (0, s\<lparr>clkevt_state := st,
                     trace := trace s @
                       [Writel (cd_base (ced_cd ced) + 0x0C) 0,
                        Writel (cd_base (ced_cd ced) + 0x08) evt,
                        Writel (cd_base (ced_cd ced) + 0x00) 1]\<rparr>) \<and>
         set_next_event mchp_clkevt evt (s\<lparr>clkevt_state := st\<rparr>) =
           Inr (0, s\<lparr>clkevt_state := st,
                     trace := trace s @
                       [Writel (cd_base (ced_cd ced) + 0x0C) 0,
                        Writel (cd_base (ced_cd ced) + 0x08) evt,
                        Writel (cd_base (ced_cd ced) + 0x00) 1]\<rparr>)"
proof -
  have d: "deref_ced (s\<lparr>clkevt_state := st\<rparr>) (data_ced (s\<lparr>clkevt_state := st\<rparr>)) = Inr ced"
    using assms by (simp add: deref_ced_state)
  show ?thesis
    by (simp add: clkevt_def mchp_clkevt_def pit64_set_next_event_trace [OF d]
        mchp_pit64_set_next_event_trace [OF d])
qed

theorem set_next_event_unconditional_witness:
  "deref_ced (live_kernel Periodic) (data_ced (live_kernel Periodic)) = Inr example_ced \<and>
   set_next_event clkevt 5000 ((live_kernel Periodic)\<lparr>clkevt_state := Shutdown\<rparr>) =
     Inr (0, (live_kernel Periodic)\<lparr>clkevt_state := Shutdown, trace :=
        [Writel 0xE180000C 0, Writel 0xE1800008 5000, Writel 0xE1800000 1]\<rparr>) \<and>
   set_next_event mchp_clkevt 5000 ((live_kernel Periodic)\<lparr>clkevt_state := Shutdown\<rparr>) =
     Inr (0, (live_kernel Periodic)\<lparr>clkevt_state := Shutdown, trace :=
        [Writel 0xE180000C 0, Writel 0xE1800008 5000, Writel 0xE1800000 1]\<rparr>)"
proof -
  have h: "deref_ced (live_kernel Periodic) (data_ced (live_kernel Periodic)) = Inr example_ced"
    by (simp add: live_kernel_simps)
  show ?thesis
    using h set_next_event_unconditional [OF h, of 5000 Shutdown]
    by (simp add: live_kernel_simps example_ced_simps)
qed

lemma pit64_interrupt_other:
  "data_ced s \<noteq> dev_id \<Longrightarrow> pit64_interrupt e irq dev_id s = Inr (IRQ_NONE, s)"
  by (simp add: pit64_interrupt_def)

lemma mchp_pit64_interrupt_other:
  "data_ced s \<noteq> dev_id \<Longrightarrow> mchp_pit64_interrupt e irq dev_id s = Inr (IRQ_NONE, s)"
  by (simp add: mchp_pit64_interrupt_def)

lemma pit64_interrupt_owner:
  assumes "data_ced s = dev_id" and "deref_ced s dev_id = Inr ced"
    and "ced_clkevt ced = Clkevt_static"
  shows "pit64_interrupt e irq dev_id s =
     (let a = cd_base (ced_cd ced) + 0x1C; v = readl_relaxed e (trace s) a
      in if v AND 1 \<noteq> 0
         then Inr (IRQ_HANDLED, s\<lparr>trace := trace s @ [Readl a v, Event_handler]\<rparr>)
         else Inr (IRQ_NONE, s\<lparr>trace := trace s @ [Readl a v]\<rparr>))"
  using assms
  by (simp add: pit64_interrupt_def pit64_read_def emit_def pit64_consts Let_def)

lemma mchp_pit64_interrupt_owner:
  assumes "data_ced s = dev_id" and "deref_ced s dev_id = Inr ced"
    and "ced_clkevt ced = Clkevt_static"
  shows "mchp_pit64_interrupt e irq dev_id s =
     (let a = cd_base (ced_cd ced) + 0x1C; v = readl_relaxed e (trace s) a
      in if v AND 1 \<noteq> 0
         then Inr (IRQ_HANDLED, s\<lparr>trace := trace s @ [Readl a v, Event_handler]\<rparr>)
         else Inr (IRQ_NONE, s\<lparr>trace := trace s @ [Readl a v]\<rparr>))"
  using assms
  by (simp add: mchp_pit64_interrupt_def mchp_pit64_read_def emit_def pit64_consts Let_def)

text \<open>
  C8. In both variants: invoked with a device identity other than the registered owner
  \<open>data.ced\<close>, the handler returns \<open>IRQ_NONE\<close> and does nothing, not even a read of the
  status register, whatever that register holds. Invoked for the registered owner, it
  reads the interrupt status register (offset \<open>0x1C\<close>) once; it dispatches to the event
  handler and returns \<open>IRQ_HANDLED\<close> if the period bit (bit 0) of the value read is set,
  and returns \<open>IRQ_NONE\<close> without dispatching otherwise.
\<close>

theorem interrupt_ownership:
  "(data_ced s \<noteq> dev_id \<longrightarrow>
      pit64_interrupt e irq dev_id s = Inr (IRQ_NONE, s) \<and>
      mchp_pit64_interrupt e irq dev_id s = Inr (IRQ_NONE, s)) \<and>
   (data_ced s = dev_id \<and> deref_ced s dev_id = Inr ced \<and> ced_clkevt ced = Clkevt_static \<longrightarrow>
      (let a = cd_base (ced_cd ced) + 0x1C; v = readl_relaxed e (trace s) a;
           r = (if v AND 1 \<noteq> 0
                then Inr (IRQ_HANDLED, s\<lparr>trace := trace s @ [Readl a v, Event_handler]\<rparr>)
                else Inr (IRQ_NONE, s\<lparr>trace := trace s @ [Readl a v]\<rparr>))
       in pit64_interrupt e irq dev_id s = r \<and> mchp_pit64_interrupt e irq dev_id s = r))"
  by (simp add: pit64_interrupt_other mchp_pit64_interrupt_other
      pit64_interrupt_owner mchp_pit64_interrupt_owner Let_def)

theorem interrupt_ownership_witness:
  "data_ced (live_kernel Periodic) \<noteq> 0xC0002040 \<and>
   pit64_interrupt (example_env 32000000) 34 0xC0002040 (live_kernel Periodic)
     = Inr (IRQ_NONE, live_kernel Periodic) \<and>
   mchp_pit64_interrupt (example_env 32000000) 34 0xC0002040 (live_kernel Periodic)
     = Inr (IRQ_NONE, live_kernel Periodic) \<and>
   data_ced (live_kernel Periodic) = 0xC0002000 \<and>
   deref_ced (live_kernel Periodic) 0xC0002000 = Inr example_ced \<and>
   ced_clkevt example_ced = Clkevt_static \<and>
   pit64_interrupt (example_env 32000000) 34 0xC0002000 (live_kernel Periodic)
     = Inr (IRQ_HANDLED, (live_kernel Periodic)\<lparr>trace := [Readl 0xE180001C 1, Event_handler]\<rparr>) \<and>
   mchp_pit64_interrupt (example_env 32000000) 34 0xC0002000 (live_kernel Periodic)
     = Inr (IRQ_HANDLED, (live_kernel Periodic)\<lparr>trace := [Readl 0xE180001C 1, Event_handler]\<rparr>)"
  using interrupt_ownership [of "live_kernel Periodic" "0xC0002040" "example_env 32000000" 34 example_ced]
    interrupt_ownership [of "live_kernel Periodic" "0xC0002000" "example_env 32000000" 34 example_ced]
  by (simp add: live_kernel_simps example_ced_simps example_env_simps Let_def)

text \<open>
  Suspend and resume of the current variant, as its device table registers them:
  suspend issues the software reset and then disables the clock; resume enables the
  clock and, when that succeeds, resets with the interrupt enabled and the mode taken
  from the recorded state, continuous for Periodic and single-shot otherwise.
\<close>

lemma mchp_suspend_trace:
  assumes "deref_ced s (data_ced s) = Inr ced"
  shows "suspend mchp_clkevt e s =
     Inr (s\<lparr>trace := trace s @
            [Writel (cd_base (ced_cd ced) + 0x00) 0x100,
             Clk_disable_unprepare (cd_clk (ced_cd ced))]\<rparr>)"
  using assms
  by (simp add: mchp_clkevt_def mchp_pit64_clkevt_suspend_def mchp_pit64_write_def emit_def
      pit64_consts)

lemma mchp_resume_trace:
  assumes "deref_ced s (data_ced s) = Inr ced" and "ced_clkevt ced = Clkevt_static"
    and "clk_prepare_enable e (cd_clk (ced_cd ced)) = 0"
  shows "resume mchp_clkevt e s =
     Inr (s\<lparr>trace := trace s @
            [Clk_prepare_enable (cd_clk (ced_cd ced)) 0,
             Writel (cd_base (ced_cd ced) + 0x00) 0x100,
             Writel (cd_base (ced_cd ced) + 0x04)
               ((if clkevt_state s = Periodic then 0x1 else 0x10)
                  OR (0xF00 AND push_bit 8 (ucast (cd_pres (ced_cd ced)) - 1))),
             Writel (cd_base (ced_cd ced) + 0x0C) (ucast (drop_bit 32 (cd_cycles (ced_cd ced)))),
             Writel (cd_base (ced_cd ced) + 0x08) (ucast (cd_cycles (ced_cd ced))),
             Writel (cd_base (ced_cd ced) + 0x10) 1,
             Writel (cd_base (ced_cd ced) + 0x00) 1]\<rparr>)"
  using assms
  by (simp add: mchp_clkevt_def mchp_pit64_clkevt_resume_def mchp_pit64_reset_trace emit_def
      pit64_consts clockevent_state_periodic_def)

text \<open>
  C3. The claim: in both variants the registered suspend callback issues the software
  reset and then disables the clock, and the registered resume callback enables the
  clock and then resets with the mode of the recorded state. The legacy device table
  registers the two functions the other way round (\<open>.suspend = pit64_clkevt_resume\<close>,
  \<open>.resume = pit64_clkevt_suspend\<close>): on a Periodic instance its suspend callback enables
  the clock and re-arms the timer, and its resume callback resets the timer and disables
  the clock. The current table does what the claim says.
\<close>

theorem legacy_suspend_resume_swapped:
  "suspend clkevt (example_env 32000000) (live_kernel Periodic) =
     Inr ((live_kernel Periodic)\<lparr>trace :=
        [Clk_prepare_enable 0xC0001000 0,
         Writel 0xE1800000 0x100, Writel 0xE1800004 0xC01,
         Writel 0xE180000C 0, Writel 0xE1800008 24615,
         Writel 0xE1800010 1, Writel 0xE1800000 1]\<rparr>) \<and>
   resume clkevt (example_env 32000000) (live_kernel Periodic) =
     Inr ((live_kernel Periodic)\<lparr>trace :=
        [Writel 0xE1800000 0x100, Clk_disable_unprepare 0xC0001000]\<rparr>) \<and>
   suspend mchp_clkevt (example_env 32000000) (live_kernel Periodic) =
     Inr ((live_kernel Periodic)\<lparr>trace :=
        [Writel 0xE1800000 0x100, Clk_disable_unprepare 0xC0001000]\<rparr>)"
  by (simp add: clkevt_def mchp_clkevt_def pit64_clkevt_resume_def pit64_clkevt_suspend_def
      mchp_pit64_clkevt_suspend_def mchp_pit64_write_def
      pit64_reset_trace pit64_write_def emit_def pit64_consts clockevent_state_periodic_def
      live_kernel_simps example_ced_simps example_env_simps)

section \<open>Instantiation on an occupied registry slot\<close>

lemma dt_init_occupied_legacy:
  assumes "of_iomap e node = base" and "base \<noteq> 0" and "of_clk_get e node = Inr clk"
    and "mode = PIT64_MODE_CLKSRC \<and> data_csd s \<noteq> 0 \<or>
         mode = PIT64_MODE_CLKEVT \<and> data_ced s \<noteq> 0"
  shows "pit64_dt_init e node mode s =
     Inr (- EINVAL, s\<lparr>trace := trace s @
        [Of_iomap node base, Of_clk_get node (Inr clk), Clk_put clk, Iounmap base]\<rparr>)"
  using assms
  by (auto simp: pit64_dt_init_def pit64_dt_init_clock_put_def pit64_dt_init_unmap_def
      emit_def Let_def pit64_consts)

lemma dt_init_occupied_mchp:
  assumes "of_iomap e node = base" and "base \<noteq> 0" and "of_clk_get e node = Inr clk"
    and "mode = MCHP_PIT64_MODE_CLKSRC \<and> data_csd s \<noteq> 0 \<or>
         mode = MCHP_PIT64_MODE_CLKEVT \<and> data_ced s \<noteq> 0"
  shows "mchp_pit64_dt_init e node mode s =
     Inr (- EBUSY, s\<lparr>trace := trace s @
        [Of_iomap node base, Of_clk_get node (Inr clk), Clk_put clk, Iounmap base]\<rparr>)"
  using assms
  by (auto simp: mchp_pit64_dt_init_def mchp_pit64_dt_init_clock_put_def
      mchp_pit64_dt_init_unmap_def emit_def Let_def pit64_consts)

text \<open>
  What both variants do on an occupied slot, when the register window maps and the clock
  is found, in clocksource and in clockevent mode: the call fails, and the state
  afterwards is the state before with four events added to the trace, the mapping and
  the clock lookup, then the release of the clock reference and of the mapping. So no
  register is written, and the registry and the instances are unchanged. The two
  variants differ in the error they return.
\<close>

lemma dt_init_occupied_slot:
  assumes "of_iomap e node = base" and "base \<noteq> 0" and "of_clk_get e node = Inr clk"
  shows
    "(let s' = s\<lparr>trace := trace s @
                 [Of_iomap node base, Of_clk_get node (Inr clk), Clk_put clk, Iounmap base]\<rparr>
      in (data_csd s \<noteq> 0 \<longrightarrow>
            pit64_dt_init e node PIT64_MODE_CLKSRC s = Inr (- EINVAL, s') \<and>
            mchp_pit64_dt_init e node MCHP_PIT64_MODE_CLKSRC s = Inr (- EBUSY, s')) \<and>
         (data_ced s \<noteq> 0 \<longrightarrow>
            pit64_dt_init e node PIT64_MODE_CLKEVT s = Inr (- EINVAL, s') \<and>
            mchp_pit64_dt_init e node MCHP_PIT64_MODE_CLKEVT s = Inr (- EBUSY, s')))"
  unfolding Let_def
  using dt_init_occupied_legacy [OF assms, of PIT64_MODE_CLKSRC s]
    dt_init_occupied_legacy [OF assms, of PIT64_MODE_CLKEVT s]
    dt_init_occupied_mchp [OF assms, of MCHP_PIT64_MODE_CLKSRC s]
    dt_init_occupied_mchp [OF assms, of MCHP_PIT64_MODE_CLKEVT s]
  by simp

text \<open>
  C4. The claim: in both variants and both modes, instantiation on an occupied registry
  slot fails with an already-active error, writes no register, leaves the instance and
  the slot as they are and releases the clock reference and the register mapping. The
  current variant does so and returns \<open>-EBUSY\<close>. The legacy \<open>pit64_dt_init\<close> jumps to
  \<open>clock_put\<close> without assigning \<open>ret\<close>: with both slots occupied, its clockevent and its
  clocksource entry points release the resources and leave the state alone, but return
  \<open>-EINVAL\<close>, the invalid-argument error \<open>ret\<close> was initialised with, not an already-active
  error.
\<close>

theorem legacy_occupied_slot_returns_einval:
  "pit64_clkevt_dt_init (example_env 32000000) 0xC0000100 (live_kernel Periodic) =
     Inr (- EINVAL, (live_kernel Periodic)\<lparr>trace :=
        [Of_iomap 0xC0000100 0xE1800000, Of_clk_get 0xC0000100 (Inr 0xC0001000),
         Clk_put 0xC0001000, Iounmap 0xE1800000]\<rparr>) \<and>
   pit64_clksrc_dt_init (example_env 32000000) 0xC0000100 (live_kernel Periodic) =
     Inr (- EINVAL, (live_kernel Periodic)\<lparr>trace :=
        [Of_iomap 0xC0000100 0xE1800000, Of_clk_get 0xC0000100 (Inr 0xC0001000),
         Clk_put 0xC0001000, Iounmap 0xE1800000]\<rparr>) \<and>
   mchp_pit64_clkevt_dt_init (example_env 32000000) 0xC0000100 (live_kernel Periodic) =
     Inr (- EBUSY, (live_kernel Periodic)\<lparr>trace :=
        [Of_iomap 0xC0000100 0xE1800000, Of_clk_get 0xC0000100 (Inr 0xC0001000),
         Clk_put 0xC0001000, Iounmap 0xE1800000]\<rparr>) \<and>
   mchp_pit64_clksrc_dt_init (example_env 32000000) 0xC0000100 (live_kernel Periodic) =
     Inr (- EBUSY, (live_kernel Periodic)\<lparr>trace :=
        [Of_iomap 0xC0000100 0xE1800000, Of_clk_get 0xC0000100 (Inr 0xC0001000),
         Clk_put 0xC0001000, Iounmap 0xE1800000]\<rparr>) \<and>
   - EINVAL \<noteq> - EBUSY"
  by (simp add: pit64_clkevt_dt_init_def pit64_clksrc_dt_init_def
      mchp_pit64_clkevt_dt_init_def mchp_pit64_clksrc_dt_init_def
      pit64_dt_init_def pit64_dt_init_clock_put_def pit64_dt_init_unmap_def
      mchp_pit64_dt_init_def mchp_pit64_dt_init_clock_put_def mchp_pit64_dt_init_unmap_def
      emit_def Let_def pit64_consts live_kernel_simps example_env_simps)

end
